theory Spec2Isabelle
  imports Complex_Main "HOL-Library.Sublist"
begin

section \<open>JavaScript values read by the components\<close>

text \<open>
  The analysis response reaches the dashboard as an untyped value (\<open>apiResult?: any\<close>):
  whatever \<open>response.json()\<close> returned. It is modelled as a parsed JSON value, extended
  with \<open>undefined\<close>, which is what reading a missing property yields. JSON numbers are
  rationals (every finite double is one, and the comparisons of the source agree with
  the comparisons of the rationals). A string is the list of its code units; the
  non-ASCII characters of the source's literals are written as their UTF-8 bytes.
  An object is the association list of its own properties (keys distinct, as a parser
  leaves them).
\<close>

datatype jsval =
    JUndefined
  | JNull
  | JBool bool
  | JNum rat
  | JStr string
  | JArr "jsval list"
  | JObj "(string \<times> jsval) list"

text \<open>
  What the runtime, not the repository, decides: how a number prints in a template
  literal, how a string converts to a number, what \<open>(v * 100).toFixed(d)\<close> and
  \<open>v.toLocaleString()\<close> print. The components are modelled for every such runtime.
\<close>

record platform =
  numStr :: "rat \<Rightarrow> string"
  strNum :: "string \<Rightarrow> rat option"
  pctFixed :: "nat \<Rightarrow> jsval \<Rightarrow> string"
  localeStr :: "jsval \<Rightarrow> string"

datatype error =
    TypeError
  | NetworkError
  | SyntaxError
  | ApiError nat string string

text \<open>Truthiness: what \<open>if (v)\<close>, \<open>!!v\<close>, \<open>v && w\<close> and \<open>v || w\<close> test.\<close>

fun truthy :: "jsval \<Rightarrow> bool" where
  "truthy JUndefined = False"
| "truthy JNull = False"
| "truthy (JBool b) = b"
| "truthy (JNum n) = (n \<noteq> 0)"
| "truthy (JStr s) = (s \<noteq> [])"
| "truthy (JArr xs) = True"
| "truthy (JObj kvs) = True"

fun nullish :: "jsval \<Rightarrow> bool" where
  "nullish JUndefined = True"
| "nullish JNull = True"
| "nullish v = False"

text \<open>\<open>a || b\<close> and \<open>a ?? b\<close>.\<close>

definition orElse :: "jsval \<Rightarrow> jsval \<Rightarrow> jsval" where
  "orElse a b = (if truthy a then a else b)"

definition coalesce :: "jsval \<Rightarrow> jsval \<Rightarrow> jsval" where
  "coalesce a b = (if nullish a then b else a)"

text \<open>
  \<open>v.k\<close> for a named property \<open>k\<close>: an object's own property, the \<open>length\<close> of a
  string or an array, and \<open>undefined\<close> for every other property of a value that is not
  \<open>null\<close> or \<open>undefined\<close>. On \<open>null\<close> and \<open>undefined\<close> the optional chain \<open>v?.k\<close> is
  \<open>undefined\<close>, which is what \<open>getProp\<close> returns there, and the plain \<open>v.k\<close> throws a
  TypeError, which is \<open>dot\<close>. The source reads with a plain \<open>.\<close> mostly from values of
  the form \<open>x || {}\<close>, which are never \<open>null\<close> or \<open>undefined\<close>; there the model uses \<open>getProp\<close>.
\<close>

fun getProp :: "jsval \<Rightarrow> string \<Rightarrow> jsval" where
  "getProp (JObj kvs) k = (case map_of kvs k of Some v \<Rightarrow> v | None \<Rightarrow> JUndefined)"
| "getProp (JArr xs) k = (if k = ''length'' then JNum (of_nat (length xs)) else JUndefined)"
| "getProp (JStr s) k = (if k = ''length'' then JNum (of_nat (length s)) else JUndefined)"
| "getProp v k = JUndefined"

definition dot :: "jsval \<Rightarrow> string \<Rightarrow> error + jsval" where
  "dot v k = (if nullish v then Inl TypeError else Inr (getProp v k))"

text \<open>\<open>v[0]\<close> on a value that is not \<open>null\<close> or \<open>undefined\<close>.\<close>

fun index0 :: "jsval \<Rightarrow> jsval" where
  "index0 (JArr xs) = (case xs of [] \<Rightarrow> JUndefined | x # _ \<Rightarrow> x)"
| "index0 (JStr s) = (case s of [] \<Rightarrow> JUndefined | c # _ \<Rightarrow> JStr [c])"
| "index0 (JObj kvs) = (case map_of kvs ''0'' of Some v \<Rightarrow> v | None \<Rightarrow> JUndefined)"
| "index0 v = JUndefined"

text \<open>
  \<open>Object.keys(v).length\<close> for a truthy \<open>v\<close> (the only call is behind \<open>!!v &&\<close>): the
  own enumerable keys of an object, the indices of an array or a string, none for a
  number or a boolean.
\<close>

fun keysLength :: "jsval \<Rightarrow> nat" where
  "keysLength (JObj kvs) = length kvs"
| "keysLength (JArr xs) = length xs"
| "keysLength (JStr s) = length s"
| "keysLength v = 0"

text \<open>The string a template literal \<open>`${v}`\<close> inserts.\<close>

fun joinWith :: "string \<Rightarrow> string list \<Rightarrow> string" where
  "joinWith sep [] = []"
| "joinWith sep [x] = x"
| "joinWith sep (x # y # ys) = x @ sep @ joinWith sep (y # ys)"

fun toStr :: "platform \<Rightarrow> jsval \<Rightarrow> string" where
  "toStr P JUndefined = ''undefined''"
| "toStr P JNull = ''null''"
| "toStr P (JBool b) = (if b then ''true'' else ''false'')"
| "toStr P (JNum n) = numStr P n"
| "toStr P (JStr s) = s"
| "toStr P (JArr xs) =
     joinWith '','' (map (\<lambda>x. if x = JUndefined \<or> x = JNull then [] else toStr P x) xs)"
| "toStr P (JObj kvs) = ''[object Object]''"

text \<open>
  The number a comparison with a number literal converts its operand to; \<open>None\<close> is
  NaN, and every comparison with NaN is false.
\<close>

fun toNumber :: "platform \<Rightarrow> jsval \<Rightarrow> rat option" where
  "toNumber P JUndefined = None"
| "toNumber P JNull = Some 0"
| "toNumber P (JBool b) = Some (if b then 1 else 0)"
| "toNumber P (JNum n) = Some n"
| "toNumber P (JStr s) = strNum P s"
| "toNumber P (JArr xs) = strNum P (toStr P (JArr xs))"
| "toNumber P (JObj kvs) = None"

definition gt :: "platform \<Rightarrow> jsval \<Rightarrow> rat \<Rightarrow> bool" where
  "gt P v n = (case toNumber P v of None \<Rightarrow> False | Some x \<Rightarrow> x > n)"

definition lt :: "platform \<Rightarrow> jsval \<Rightarrow> rat \<Rightarrow> bool" where
  "lt P v n = (case toNumber P v of None \<Rightarrow> False | Some x \<Rightarrow> x < n)"

definition ge :: "platform \<Rightarrow> jsval \<Rightarrow> rat \<Rightarrow> bool" where
  "ge P v n = (case toNumber P v of None \<Rightarrow> False | Some x \<Rightarrow> x \<ge> n)"

text \<open>
  Converting an object to a primitive calls its \<open>toString\<close> (for a number, after its
  \<open>valueOf\<close>, which returns the object itself). In a parsed object an own property
  named \<open>toString\<close> shadows the inherited method and is never callable, so the
  conversion throws a TypeError; an array converts its elements the same way.
  \<open>printable v\<close> says that converting \<open>v\<close> does not throw. \<open>toStr\<close>, \<open>toNumber\<close>, the
  comparisons and the runtime's \<open>pctFixed\<close> give the conversion of a printable value;
  \<open>toStrE\<close>, \<open>gtE\<close> and \<open>pctFixedE\<close> are the conversion of any value, as the builders of
  the anomalies and of the insights perform it. The builders of the fingerprint, of
  the status and of the drift data, and the colours, are modelled on printable values.
\<close>

fun printable :: "jsval \<Rightarrow> bool" where
  "printable (JObj kvs) = (map_of kvs ''toString'' = None)"
| "printable (JArr xs) = list_all printable xs"
| "printable v = True"

definition toStrE :: "platform \<Rightarrow> jsval \<Rightarrow> error + string" where
  "toStrE P v = (if printable v then Inr (toStr P v) else Inl TypeError)"

definition gtE :: "platform \<Rightarrow> jsval \<Rightarrow> rat \<Rightarrow> error + bool" where
  "gtE P v n = (if printable v then Inr (gt P v n) else Inl TypeError)"

definition pctFixedE :: "platform \<Rightarrow> nat \<Rightarrow> jsval \<Rightarrow> error + string" where
  "pctFixedE P d v = (if printable v then Inr (pctFixed P d v) else Inl TypeError)"

text \<open>
  \<open>a === b\<close> and \<open>a !== b\<close>: primitives compare by value, and two arrays or objects
  read from different places of a parsed response are never the same object.
\<close>

fun strictEq :: "jsval \<Rightarrow> jsval \<Rightarrow> bool" where
  "strictEq (JArr xs) b = False"
| "strictEq (JObj kvs) b = False"
| "strictEq a b = (a = b)"

text \<open>\<open>s.includes(sub)\<close>.\<close>

fun strIncludes :: "string \<Rightarrow> string \<Rightarrow> bool" where
  "strIncludes [] sub = (sub = [])"
| "strIncludes (c # cs) sub = (prefix sub (c # cs) \<or> strIncludes cs sub)"

text \<open>
  \<open>s.trim()\<close> strips the white space and the line terminators of ECMAScript from both
  ends: U+0009 to U+000D, U+0020, U+00A0, U+1680, U+2000 to U+200A, U+2028, U+2029,
  U+202F, U+205F, U+3000 and U+FEFF. \<open>whiteSpace\<close> lists them, each as its UTF-8 bytes;
  \<open>stripLeading\<close> removes from the front of a string every leading occurrence of one of
  the given byte sequences.
\<close>

definition whiteSpace :: "string list" where
  "whiteSpace =
     [[CHR 0x09], [CHR 0x0A], [CHR 0x0B], [CHR 0x0C], [CHR 0x0D], [CHR 0x20],
      [CHR 0xC2, CHR 0xA0],
      [CHR 0xE1, CHR 0x9A, CHR 0x80],
      [CHR 0xE2, CHR 0x80, CHR 0x80], [CHR 0xE2, CHR 0x80, CHR 0x81],
      [CHR 0xE2, CHR 0x80, CHR 0x82], [CHR 0xE2, CHR 0x80, CHR 0x83],
      [CHR 0xE2, CHR 0x80, CHR 0x84], [CHR 0xE2, CHR 0x80, CHR 0x85],
      [CHR 0xE2, CHR 0x80, CHR 0x86], [CHR 0xE2, CHR 0x80, CHR 0x87],
      [CHR 0xE2, CHR 0x80, CHR 0x88], [CHR 0xE2, CHR 0x80, CHR 0x89],
      [CHR 0xE2, CHR 0x80, CHR 0x8A],
      [CHR 0xE2, CHR 0x80, CHR 0xA8], [CHR 0xE2, CHR 0x80, CHR 0xA9],
      [CHR 0xE2, CHR 0x80, CHR 0xAF],
      [CHR 0xE2, CHR 0x81, CHR 0x9F],
      [CHR 0xE3, CHR 0x80, CHR 0x80],
      [CHR 0xEF, CHR 0xBB, CHR 0xBF]]"

function stripLeading :: "string list \<Rightarrow> string \<Rightarrow> string" where
  "stripLeading ws s =
     (case find (\<lambda>w. w \<noteq> [] \<and> prefix w s) ws of
        Some w \<Rightarrow> stripLeading ws (drop (length w) s)
      | None \<Rightarrow> s)"
  by pat_completeness auto
termination
  by (relation "measure (\<lambda>(ws, s). length s)") (auto simp: find_Some_iff prefix_def)

declare stripLeading.simps [simp del]

definition trim :: "string \<Rightarrow> string" where
  "trim s = rev (stripLeading (map rev whiteSpace) (rev (stripLeading whiteSpace s)))"


section \<open>context/AuthContext.tsx, app/login/page.tsx, app/signup/page.tsx\<close>

text \<open>
  The provider's state is the React state \<open>user\<close>, the browser's \<open>localStorage\<close> and
  the route the router was last pushed to. \<open>JSON.stringify\<close> is the runtime's and is a
  parameter; \<open>login\<close> and \<open>signup\<close> hand it the object \<open>{ email }\<close>.
\<close>

record user_obj =
  email :: string

record auth_state =
  user :: "user_obj option"
  localStorage :: "string \<rightharpoonup> string"
  route :: string

definition login :: "(jsval \<Rightarrow> string) \<Rightarrow> string \<Rightarrow> auth_state \<Rightarrow> auth_state" where
  "login stringify e st =
     st\<lparr>user := Some \<lparr>email = e\<rparr>,
        localStorage := (localStorage st)(''truth_x_user'' \<mapsto> stringify (JObj [(''email'', JStr e)])),
        route := ''/''\<rparr>"

definition signup :: "(jsval \<Rightarrow> string) \<Rightarrow> string \<Rightarrow> auth_state \<Rightarrow> auth_state" where
  "signup stringify e st =
     st\<lparr>user := Some \<lparr>email = e\<rparr>,
        localStorage := (localStorage st)(''truth_x_user'' \<mapsto> stringify (JObj [(''email'', JStr e)])),
        route := ''/''\<rparr>"

definition logout :: "auth_state \<Rightarrow> auth_state" where
  "logout st =
     st\<lparr>user := None,
        localStorage := (localStorage st)(''truth_x_user'' := None),
        route := ''/login''\<rparr>"

definition isAuthenticated :: "auth_state \<Rightarrow> bool" where
  "isAuthenticated st = (user st \<noteq> None)"

text \<open>
  The two forms. \<open>handleSubmit\<close> sets \<open>isLoading\<close>, waits, and calls \<open>login(email)\<close>
  (\<open>signup(email)\<close>); it returns the form and the provider's state after the call.
\<close>

record login_page =
  login_email :: string
  login_password :: string
  login_isLoading :: bool

record signup_page =
  signup_name :: string
  signup_email :: string
  signup_password :: string
  signup_isLoading :: bool

definition login_handleSubmit ::
  "(jsval \<Rightarrow> string) \<Rightarrow> login_page \<Rightarrow> auth_state \<Rightarrow> login_page \<times> auth_state" where
  "login_handleSubmit stringify f st =
     (f\<lparr>login_isLoading := True\<rparr>, login stringify (login_email f) st)"

definition signup_handleSubmit ::
  "(jsval \<Rightarrow> string) \<Rightarrow> signup_page \<Rightarrow> auth_state \<Rightarrow> signup_page \<times> auth_state" where
  "signup_handleSubmit stringify f st =
     (f\<lparr>signup_isLoading := True\<rparr>, signup stringify (signup_email f) st)"


section \<open>services/api.ts\<close>

text \<open>
  A \<open>fetch\<close> either rejects (a connection failure) or resolves with a response; the
  network is a function from the request to that outcome. \<open>res.ok\<close> is the Fetch
  standard's: the status is in 200..299. \<open>res_json\<close> is the parsed body, \<open>None\<close> when
  the body is not JSON and \<open>response.json()\<close> rejects; the error thrown for a
  response that is not ok carries the status, the status text and the body's text.
\<close>

record js_file =
  file_name :: string
  file_size :: nat

datatype form_value = FileValue js_file | TextValue string

datatype request =
    Get string
  | Post string "(string \<times> form_value) list"

record response =
  res_status :: nat
  res_statusText :: string
  res_text :: string
  res_json :: "jsval option"

type_synonym network = "request \<Rightarrow> error + response"

definition API_URL :: string where
  "API_URL = ''http://localhost:8000''"

definition ok :: "response \<Rightarrow> bool" where
  "ok res = (200 \<le> res_status res \<and> res_status res \<le> 299)"

definition checkBackendHealth :: "network \<Rightarrow> error + bool" where
  "checkBackendHealth net =
     (case net (Get (API_URL @ ''/health'')) of
        Inr res \<Rightarrow> Inr (ok res)
      | Inl e \<Rightarrow> Inr False)"

text \<open>The form \<open>analyzeContent\<close> builds: \<open>if (file)\<close>, then \<open>if (text)\<close>.\<close>

definition formData :: "js_file option \<Rightarrow> string option \<Rightarrow> (string \<times> form_value) list" where
  "formData f text =
     (case f of Some x \<Rightarrow> [(''video'', FileValue x)] | None \<Rightarrow> [])
     @ (case text of
          Some t \<Rightarrow> (if t \<noteq> [] then [(''query'', TextValue t)] else [])
        | None \<Rightarrow> [])"

definition analyzeRequest :: "js_file option \<Rightarrow> string option \<Rightarrow> request" where
  "analyzeRequest f text = Post (API_URL @ ''/analyze'') (formData f text)"

definition analyzeContent :: "network \<Rightarrow> js_file option \<Rightarrow> string option \<Rightarrow> error + jsval" where
  "analyzeContent net f text =
     (case net (analyzeRequest f text) of
        Inl e \<Rightarrow> Inl e
      | Inr res \<Rightarrow>
          if \<not> ok res
          then Inl (ApiError (res_status res) (res_statusText res) (res_text res))
          else (case res_json res of None \<Rightarrow> Inl SyntaxError | Some v \<Rightarrow> Inr v))"


section \<open>app/analyze/page.tsx\<close>

datatype tab = Video | Audio | Text | Image

datatype stage = Idle | Uploading | Scanning | Results

definition scanMessages :: "string list" where
  "scanMessages =
     [''Initializing neural analysis engine...'',
      ''Extracting metadata fingerprints...'',
      ''Running deepfake detection model...'',
      ''Analyzing frequency anomalies...'',
      ''Cross-referencing content database...'',
      ''Generating authenticity score...'',
      ''Compiling forensic report...'']"

text \<open>The state of \<open>AnalyzePage\<close>: one field per \<open>useState\<close>.\<close>

record page_state =
  activeTab :: tab
  stage :: stage
  dragOver :: bool
  uploadedFile :: "js_file option"
  textInput :: string
  urlInput :: string
  scanStep :: nat
  scanProgress :: nat
  uploadProgress :: nat
  apiResult :: jsval

definition initialPage :: page_state where
  "initialPage =
     \<lparr>activeTab = Video, stage = Idle, dragOver = False, uploadedFile = None,
      textInput = [], urlInput = [], scanStep = 0, scanProgress = 0, uploadProgress = 0,
      apiResult = JNull\<rparr>"

text \<open>
  The handlers of the inputs: dropping or choosing a file (\<open>if (file) setUploadedFile(file)\<close>),
  the text area, the URL field, the tab buttons (which clear the file and nothing
  else), the button that removes the file, and \<open>reset\<close>.
\<close>

definition handleDrop :: "js_file option \<Rightarrow> page_state \<Rightarrow> page_state" where
  "handleDrop f st =
     (case f of
        Some x \<Rightarrow> st\<lparr>dragOver := False, uploadedFile := Some x\<rparr>
      | None \<Rightarrow> st\<lparr>dragOver := False\<rparr>)"

definition handleFileChange :: "js_file option \<Rightarrow> page_state \<Rightarrow> page_state" where
  "handleFileChange f st =
     (case f of Some x \<Rightarrow> st\<lparr>uploadedFile := Some x\<rparr> | None \<Rightarrow> st)"

definition setTextInput :: "string \<Rightarrow> page_state \<Rightarrow> page_state" where
  "setTextInput s st = st\<lparr>textInput := s\<rparr>"

definition setUrlInput :: "string \<Rightarrow> page_state \<Rightarrow> page_state" where
  "setUrlInput s st = st\<lparr>urlInput := s\<rparr>"

definition selectTab :: "tab \<Rightarrow> page_state \<Rightarrow> page_state" where
  "selectTab t st = st\<lparr>activeTab := t, uploadedFile := None\<rparr>"

definition removeFile :: "page_state \<Rightarrow> page_state" where
  "removeFile st = st\<lparr>uploadedFile := None\<rparr>"

definition reset :: "page_state \<Rightarrow> page_state" where
  "reset st =
     st\<lparr>stage := Idle, apiResult := JNull, uploadedFile := None, textInput := [],
        urlInput := [], scanProgress := 0, scanStep := 0\<rparr>"

text \<open>
  The three intervals. The first adds 5 to \<open>progress\<close> every tick and stops at 100 or
  more; the second counts \<open>step\<close> up to the number of scan messages; the third, behind
  the progress bar of the overlay, adds 2 to \<open>scanProgress\<close> every tick until a tick
  finds it at 100 or more, sets it to 100 and stops. Each returns the value its
  counter has when it stops.
\<close>

function uploadInterval :: "nat \<Rightarrow> nat" where
  "uploadInterval progress =
     (if progress + 5 \<ge> 100 then progress + 5 else uploadInterval (progress + 5))"
  by pat_completeness auto
termination
  by (relation "measure (\<lambda>progress. 100 - progress)") auto

declare uploadInterval.simps [simp del]

function stepInterval :: "nat \<Rightarrow> nat" where
  "stepInterval step =
     (if step + 1 \<ge> length scanMessages then step + 1 else stepInterval (step + 1))"
  by pat_completeness auto
termination
  by (relation "measure (\<lambda>step. length scanMessages - step)") auto

declare stepInterval.simps [simp del]

function progressInterval :: "nat \<Rightarrow> nat" where
  "progressInterval p = (if p \<ge> 100 then 100 else progressInterval (p + 2))"
  by pat_completeness auto
termination
  by (relation "measure (\<lambda>p. 100 - p)") auto

declare progressInterval.simps [simp del]

text \<open>
  A run of a handler returns the page's state when it has settled, the requests it
  sent to the network in order, and the alerts it raised.
\<close>

type_synonym run = "page_state \<times> request list \<times> string list"

text \<open>
  \<open>startRealAnalysis\<close>, from the state of the render whose button was pressed (its
  closure reads \<open>uploadedFile\<close>, \<open>textInput\<close> and \<open>urlInput\<close> of that render):
  \<open>query = textInput || urlInput\<close>, then \<open>analyzeContent(uploadedFile, query)\<close>. The
  progress interval is started from \<open>scanProgress = 0\<close> and nothing stops it before it
  stops itself, whichever way the request ends.
\<close>

definition startRealAnalysis :: "network \<Rightarrow> page_state \<Rightarrow> run" where
  "startRealAnalysis net st =
     (let st1 = st\<lparr>scanProgress := progressInterval 0, scanStep := stepInterval 0\<rparr>;
          query = (if textInput st \<noteq> [] then textInput st else urlInput st)
      in case analyzeContent net (uploadedFile st) (Some query) of
           Inr r \<Rightarrow>
             (st1\<lparr>apiResult := r, stage := Results\<rparr>,
              [analyzeRequest (uploadedFile st) (Some query)], [])
         | Inl e \<Rightarrow>
             (st1\<lparr>stage := Idle\<rparr>,
              [analyzeRequest (uploadedFile st) (Some query)],
              [''Analysis failed. See console for details.'']))"

definition analyzeFile :: "network \<Rightarrow> page_state \<Rightarrow> run" where
  "analyzeFile net st =
     (if uploadedFile st = None \<and> trim (textInput st) = [] \<and> trim (urlInput st) = []
      then (st, [], [])
      else
        (case checkBackendHealth net of
           Inl e \<Rightarrow> (st\<lparr>stage := Uploading, uploadProgress := 0\<rparr>, [Get (API_URL @ ''/health'')], [])
         | Inr isBackendUp \<Rightarrow>
             if \<not> isBackendUp
             then (st\<lparr>stage := Idle, uploadProgress := 0\<rparr>,
                   [Get (API_URL @ ''/health'')],
                   [''Backend API is not running at http://localhost:8000. Please start the server.''])
             else
               (case startRealAnalysis net
                       (st\<lparr>stage := Scanning, uploadProgress := uploadInterval 0\<rparr>) of
                  (st', reqs, alerts) \<Rightarrow> (st', Get (API_URL @ ''/health'') # reqs, alerts))))"


section \<open>components/ResultsDashboard.tsx\<close>

subsection \<open>The mock table\<close>

text \<open>
  An entry of \<open>mockResults\<close>, which is also the shape of the merged \<open>result\<close>. The
  fields the merge may fill from the response (\<open>score\<close>, \<open>risk\<close>, \<open>confidence\<close>,
  \<open>driftData\<close>, a fingerprint value) hold whatever value the response had.
\<close>

record tl_item =
  tl_label :: string
  tl_tag :: string
  tl_color :: string
  tl_suspicious :: bool

record fp_item =
  fp_label :: string
  fp_value :: jsval
  fp_suspicious :: bool
  fp_section :: "string option"

record analysis =
  score :: jsval
  status :: string
  risk :: jsval
  confidence :: jsval
  anomalies :: "string list"
  insights :: "string list"
  timeline :: "tl_item list"
  driftData :: jsval
  fingerprint :: "fp_item list"

text \<open>
  \<open>mockResults\<close> is built once, when the module is loaded. Its one entry that is not
  a literal is the \<open>Timestamp\<close> of the image fingerprint,
  \<open>new Date().toLocaleString("en-IN", { timeZone: "Asia/Kolkata" })\<close>: the wall clock at
  load time, rendered. That string is the parameter \<open>ts\<close>.
\<close>

definition mockResults_video :: "string \<Rightarrow> analysis" where
  "mockResults_video ts =
     \<lparr>score = JNum 18,
      status = ''AI-Generated'',
      risk = JStr ''high'',
      confidence = JNum 94,
      anomalies = [
        ''Facial blending artifacts detected at frames 142'' @ [CHR 0xE2, CHR 0x80, CHR 0x93] @ ''189'',
        ''Eye blink pattern inconsistent with natural behavior'',
        ''Lighting discontinuity around jaw and hairline'',
        ''GAN fingerprint signature detected in pixel distribution'',
        ''Audio-visual sync drift +230ms at 0:14''],
      insights = [
        ''This video shows strong indicators of a face-swap deepfake. The facial region has been digitally replaced using a generative AI model.'',
        ''Natural eye blinking occurs 15'' @ [CHR 0xE2, CHR 0x80, CHR 0x93] @ ''20 times per minute. This video shows irregular blinking that does not match normal human patterns.'',
        ''The audio does not perfectly match the lip movements '' @ [CHR 0xE2, CHR 0x80, CHR 0x94] @ '' a common sign of synthetic media.''],
      timeline = [
        \<lparr>tl_label = ''Original upload'', tl_tag = ''Source detected'',
          tl_color = ''#00ff9d'', tl_suspicious = False\<rparr>,
        \<lparr>tl_label = ''Frame manipulation'', tl_tag = ''Edited'',
          tl_color = ''#ffd700'', tl_suspicious = True\<rparr>,
        \<lparr>tl_label = ''Audio replacement'', tl_tag = ''Synthetic voice'',
          tl_color = ''#ff6b35'', tl_suspicious = True\<rparr>,
        \<lparr>tl_label = ''Re-encoded'', tl_tag = ''Reused Media'',
          tl_color = ''#ffd700'', tl_suspicious = True\<rparr>,
        \<lparr>tl_label = ''Social post'', tl_tag = ''Reposted 142x'',
          tl_color = ''#a855f7'', tl_suspicious = False\<rparr>,
        \<lparr>tl_label = ''Flagged by TRUTH X'', tl_tag = ''Possible Manipulation'',
          tl_color = ''#ff4444'', tl_suspicious = True\<rparr>],
      driftData = JArr [
        JObj [(''t'', JStr ''0s''), (''v'', JNum 82)],
        JObj [(''t'', JStr ''5s''), (''v'', JNum 78)],
        JObj [(''t'', JStr ''10s''), (''v'', JNum 71)],
        JObj [(''t'', JStr ''15s''), (''v'', JNum 34)],
        JObj [(''t'', JStr ''20s''), (''v'', JNum 22)],
        JObj [(''t'', JStr ''25s''), (''v'', JNum 19)],
        JObj [(''t'', JStr ''30s''), (''v'', JNum 16)],
        JObj [(''t'', JStr ''35s''), (''v'', JNum 18)]],
      fingerprint = [
        \<lparr>fp_label = ''File Hash (SHA-256)'', fp_value = JStr (''a1f4...d892''),
          fp_suspicious = False, fp_section = None\<rparr>,
        \<lparr>fp_label = ''Creation Date'', fp_value = JStr (''2026-01-12 03:42 UTC''),
          fp_suspicious = True, fp_section = None\<rparr>,
        \<lparr>fp_label = ''GPS Metadata'', fp_value = JStr (''Stripped '' @ [CHR 0xE2, CHR 0x80, CHR 0x94] @ '' suspicious''),
          fp_suspicious = True, fp_section = None\<rparr>,
        \<lparr>fp_label = ''Software Tag'', fp_value = JStr (''FaceSwap v2.3.1''),
          fp_suspicious = True, fp_section = None\<rparr>,
        \<lparr>fp_label = ''Resolution'', fp_value = JStr (''1920'' @ [CHR 0xC3, CHR 0x97] @ ''1080 (upscaled)''),
          fp_suspicious = True, fp_section = None\<rparr>,
        \<lparr>fp_label = ''Codec'', fp_value = JStr (''H.264 '' @ [CHR 0xE2, CHR 0x80, CHR 0x94] @ '' re-encoded''),
          fp_suspicious = False, fp_section = None\<rparr>]\<rparr>"

definition mockResults_audio :: "string \<Rightarrow> analysis" where
  "mockResults_audio ts =
     \<lparr>score = JNum 31,
      status = ''Synthetic Voice'',
      risk = JStr ''high'',
      confidence = JNum 91,
      anomalies = [
        ''Voice frequency spectrum shows TTS neural pattern'',
        ''Prosody pattern matches ElevenLabs voice model'',
        ''No natural breathing pauses detected between sentences'',
        ''Formant transitions too smooth '' @ [CHR 0xE2, CHR 0x80, CHR 0x94] @ '' unnatural'',
        ''Background noise artificially added post-synthesis''],
      insights = [
        ''This audio clip appears to be generated using a neural text-to-speech (TTS) system, commonly used in AI voice scam calls.'',
        ''Natural human speech contains micro-pauses, breath sounds, and slight frequency variations. This audio is unusually clean '' @ [CHR 0xE2, CHR 0x80, CHR 0x94] @ '' a sign of synthesis.'',
        ''The voice model matches a known commercial voice cloning platform with 91% confidence.''],
      timeline = [
        \<lparr>tl_label = ''Voice sample source'', tl_tag = ''Public recording'',
          tl_color = ''#00ff9d'', tl_suspicious = False\<rparr>,
        \<lparr>tl_label = ''Voice cloned'', tl_tag = ''Synthetic Voice'',
          tl_color = ''#ff4444'', tl_suspicious = True\<rparr>,
        \<lparr>tl_label = ''Script generated'', tl_tag = ''AI Text'',
          tl_color = ''#ffd700'', tl_suspicious = True\<rparr>,
        \<lparr>tl_label = ''Call initiated'', tl_tag = ''Scam attempt'',
          tl_color = ''#ff4444'', tl_suspicious = True\<rparr>,
        \<lparr>tl_label = ''Flagged by TRUTH X'', tl_tag = ''Possible Manipulation'',
          tl_color = ''#ff4444'', tl_suspicious = True\<rparr>],
      driftData = JArr [
        JObj [(''t'', JStr ''0s''), (''v'', JNum 70)],
        JObj [(''t'', JStr ''3s''), (''v'', JNum 65)],
        JObj [(''t'', JStr ''6s''), (''v'', JNum 50)],
        JObj [(''t'', JStr ''9s''), (''v'', JNum 35)],
        JObj [(''t'', JStr ''12s''), (''v'', JNum 28)],
        JObj [(''t'', JStr ''15s''), (''v'', JNum 32)],
        JObj [(''t'', JStr ''18s''), (''v'', JNum 29)],
        JObj [(''t'', JStr ''21s''), (''v'', JNum 31)]],
      fingerprint = [
        \<lparr>fp_label = ''Audio Hash'', fp_value = JStr (''c8b2...f441''),
          fp_suspicious = False, fp_section = None\<rparr>,
        \<lparr>fp_label = ''Sample Rate'', fp_value = JStr (''22050 Hz (TTS default)''),
          fp_suspicious = True, fp_section = None\<rparr>,
        \<lparr>fp_label = ''Bit Depth'', fp_value = JStr (''16-bit PCM''),
          fp_suspicious = False, fp_section = None\<rparr>,
        \<lparr>fp_label = ''Voice Model Match'', fp_value = JStr (''ElevenLabs '' @ [CHR 0xE2, CHR 0x80, CHR 0x94] @ '' 91% match''),
          fp_suspicious = True, fp_section = None\<rparr>,
        \<lparr>fp_label = ''Duration'', fp_value = JStr (''42.3 seconds''),
          fp_suspicious = False, fp_section = None\<rparr>,
        \<lparr>fp_label = ''Background Noise'', fp_value = JStr (''Artificially added''),
          fp_suspicious = True, fp_section = None\<rparr>]\<rparr>"

definition mockResults_text :: "string \<Rightarrow> analysis" where
  "mockResults_text ts =
     \<lparr>score = JNum 72,
      status = ''Partially AI-Generated'',
      risk = JStr ''medium'',
      confidence = JNum 83,
      anomalies = [
        ''Burstiness score 0.12 '' @ [CHR 0xE2, CHR 0x80, CHR 0x94] @ '' below human threshold (0.4+)'',
        ''Perplexity anomalies in paragraphs 2, 4, and 6'',
        ''Repetitive sentence structure typical of LLM output'',
        ''4 factual claims could not be verified against known sources'',
        ''Publication date inconsistency detected''],
      insights = [
        ''This article shows mixed signals '' @ [CHR 0xE2, CHR 0x80, CHR 0x94] @ '' some sections appear human-written, others show strong AI generation patterns.'',
        ''AI-generated text tends to have a more uniform '' @ [CHR 0x27] @ ''burstiness'' @ [CHR 0x27] @ '' '' @ [CHR 0xE2, CHR 0x80, CHR 0x94] @ '' meaning sentences are similarly structured. Human writing is more varied.'',
        ''While the article is not entirely fabricated, key statistics cited in paragraphs 2 and 4 could not be verified and may be hallucinated by an AI model.''],
      timeline = [
        \<lparr>tl_label = ''Article published'', tl_tag = ''Original post'',
          tl_color = ''#00ff9d'', tl_suspicious = False\<rparr>,
        \<lparr>tl_label = ''Partially rewritten'', tl_tag = ''AI-assisted edit'',
          tl_color = ''#ffd700'', tl_suspicious = True\<rparr>,
        \<lparr>tl_label = ''Stats altered'', tl_tag = ''Context Changed'',
          tl_color = ''#ff6b35'', tl_suspicious = True\<rparr>,
        \<lparr>tl_label = ''Reshared as news'', tl_tag = ''Reused Media'',
          tl_color = ''#ffd700'', tl_suspicious = True\<rparr>,
        \<lparr>tl_label = ''Flagged by TRUTH X'', tl_tag = ''Possible Manipulation'',
          tl_color = ''#ff4444'', tl_suspicious = True\<rparr>],
      driftData = JArr [
        JObj [(''t'', JStr ''P1''), (''v'', JNum 85)],
        JObj [(''t'', JStr ''P2''), (''v'', JNum 72)],
        JObj [(''t'', JStr ''P3''), (''v'', JNum 80)],
        JObj [(''t'', JStr ''P4''), (''v'', JNum 55)],
        JObj [(''t'', JStr ''P5''), (''v'', JNum 75)],
        JObj [(''t'', JStr ''P6''), (''v'', JNum 60)],
        JObj [(''t'', JStr ''P7''), (''v'', JNum 70)]],
      fingerprint = [
        \<lparr>fp_label = ''Word Count'', fp_value = JStr (''1,240 words''),
          fp_suspicious = False, fp_section = None\<rparr>,
        \<lparr>fp_label = ''Burstiness Score'', fp_value = JStr (''0.12 (below 0.4 threshold)''),
          fp_suspicious = True, fp_section = None\<rparr>,
        \<lparr>fp_label = ''Author'', fp_value = JStr (''Unknown / No byline''),
          fp_suspicious = True, fp_section = None\<rparr>,
        \<lparr>fp_label = ''Publication Date'', fp_value = JStr (''3 days in future''),
          fp_suspicious = True, fp_section = None\<rparr>,
        \<lparr>fp_label = ''Domain Age'', fp_value = JStr (''Created 4 weeks ago''),
          fp_suspicious = True, fp_section = None\<rparr>,
        \<lparr>fp_label = ''Citations'', fp_value = JStr (''2/6 verifiable''),
          fp_suspicious = True, fp_section = None\<rparr>]\<rparr>"

definition mockResults_image :: "string \<Rightarrow> analysis" where
  "mockResults_image ts =
     \<lparr>score = JNum 91,
      status = ''Authentic'',
      risk = JStr ''low'',
      confidence = JNum 97,
      anomalies = [
        ''No GAN fingerprint detected'',
        ''EXIF metadata consistent with claimed device'',
        ''Noise distribution matches natural camera sensor''],
      insights = [
        ''This image shows no signs of digital manipulation or AI generation. The pixel distribution, noise pattern, and metadata are all consistent with a genuine photograph.'',
        ''The EXIF data matches an authentic Canon EOS R5 camera with standard settings.'',
        ''No signs of copy-paste manipulation, cloning, or AI upscaling were found.''],
      timeline = [
        \<lparr>tl_label = ''Photo taken'', tl_tag = ''Original capture'',
          tl_color = ''#00ff9d'', tl_suspicious = False\<rparr>,
        \<lparr>tl_label = ''Minor color correction'', tl_tag = ''Minor edit'',
          tl_color = ''#00d4ff'', tl_suspicious = False\<rparr>,
        \<lparr>tl_label = ''Published online'', tl_tag = ''Social share'',
          tl_color = ''#a855f7'', tl_suspicious = False\<rparr>,
        \<lparr>tl_label = ''Verified by TRUTH X'', tl_tag = ''Authentic'',
          tl_color = ''#00ff9d'', tl_suspicious = False\<rparr>],
      driftData = JArr [
        JObj [(''t'', JStr ''R1''), (''v'', JNum 92)],
        JObj [(''t'', JStr ''R2''), (''v'', JNum 90)],
        JObj [(''t'', JStr ''R3''), (''v'', JNum 93)],
        JObj [(''t'', JStr ''R4''), (''v'', JNum 91)],
        JObj [(''t'', JStr ''R5''), (''v'', JNum 94)],
        JObj [(''t'', JStr ''R6''), (''v'', JNum 89)]],
      fingerprint = [
        \<lparr>fp_label = ''File Hash (SHA-256)'', fp_value = JStr (''9e7c...a201''),
          fp_suspicious = False, fp_section = None\<rparr>,
        \<lparr>fp_label = ''Device'', fp_value = JStr (''Canon EOS R5''),
          fp_suspicious = False, fp_section = None\<rparr>,
        \<lparr>fp_label = ''GPS Location'', fp_value = JStr (''Present & consistent''),
          fp_suspicious = False, fp_section = None\<rparr>,
        \<lparr>fp_label = ''Software'', fp_value = JStr (''Adobe Lightroom (minor edit)''),
          fp_suspicious = False, fp_section = None\<rparr>,
        \<lparr>fp_label = ''Timestamp'', fp_value = JStr ts,
          fp_suspicious = False, fp_section = None\<rparr>,
        \<lparr>fp_label = ''Resolution'', fp_value = JStr (''8192'' @ [CHR 0xC3, CHR 0x97] @ ''5464 (original)''),
          fp_suspicious = False, fp_section = None\<rparr>]\<rparr>"

definition mockResults :: "string \<Rightarrow> tab \<Rightarrow> analysis" where
  "mockResults ts t =
     (case t of
        Video \<Rightarrow> mockResults_video ts
      | Audio \<Rightarrow> mockResults_audio ts
      | Text \<Rightarrow> mockResults_text ts
      | Image \<Rightarrow> mockResults_image ts)"

subsection \<open>What the component extracts from the response\<close>

text \<open>\<open>apiResult?.k\<close> is \<open>getProp apiResult k\<close>: \<open>undefined\<close> when there is no response.\<close>

definition videoML :: "jsval \<Rightarrow> jsval" where
  "videoML api = getProp api ''video_analysis''"

definition textML :: "jsval \<Rightarrow> jsval" where
  "textML api = getProp api ''text_analysis''"

definition relatedArticles :: "jsval \<Rightarrow> jsval" where
  "relatedArticles api = orElse (getProp api ''related_articles'') (JArr [])"

definition isRealModels :: "jsval \<Rightarrow> bool" where
  "isRealModels api = strictEq (getProp api ''models_used'') (JStr ''real'')"

definition hasMetadata :: "jsval \<Rightarrow> bool" where
  "hasMetadata api =
     (truthy (getProp api ''metadata'') \<and> keysLength (getProp api ''metadata'') > 0)"

definition hasML :: "jsval \<Rightarrow> bool" where
  "hasML api = (truthy (videoML api) \<or> truthy (textML api))"

definition hasRealData :: "jsval \<Rightarrow> bool" where
  "hasRealData api = (hasMetadata api \<or> hasML api \<or> getProp api ''score'' \<noteq> JUndefined)"

definition realMeta :: "jsval \<Rightarrow> jsval" where
  "realMeta api = orElse (getProp api ''metadata'') (JObj [])"

definition realRisk :: "jsval \<Rightarrow> jsval" where
  "realRisk api = orElse (getProp api ''risk_assessment'') (JObj [])"

definition realScore :: "jsval \<Rightarrow> jsval" where
  "realScore api = coalesce (getProp api ''score'') JNull"

definition realRiskLevel :: "jsval \<Rightarrow> jsval" where
  "realRiskLevel api = coalesce (getProp api ''risk_level'') JNull"

subsection \<open>buildFingerprint\<close>

text \<open>
  The items are pushed section by section; each section is a list here and the
  fingerprint their concatenation, in the order of the pushes.
\<close>

definition item :: "string \<Rightarrow> jsval \<Rightarrow> bool \<Rightarrow> string \<Rightarrow> fp_item" where
  "item l v s sec = \<lparr>fp_label = l, fp_value = v, fp_suspicious = s, fp_section = Some sec\<rparr>"

definition fileItems :: "platform \<Rightarrow> jsval \<Rightarrow> jsval \<Rightarrow> jsval \<Rightarrow> fp_item list" where
  "fileItems P meta fi vid =
     [item ''File Name''
        (orElse (orElse (getProp meta ''original_filename'') (getProp fi ''file_name''))
           (JStr ''Unknown''))
        False ''File'',
      item ''Container Format'' (orElse (getProp fi ''container_format'') (JStr ''Unknown''))
        False ''File'',
      item ''File Size''
        (if truthy (getProp fi ''file_size_mb'')
         then JStr (toStr P (getProp fi ''file_size_mb'') @ '' MB'') else JStr ''N/A'')
        False ''File'',
      item ''Duration''
        (orElse (getProp fi ''duration_human'')
           (JStr (toStr P (orElse (getProp fi ''duration_seconds'') (JNum 0)) @ ''s'')))
        False ''File'',
      item ''Total Bitrate''
        (if truthy (getProp fi ''total_bitrate_kbps'')
         then JStr (toStr P (getProp fi ''total_bitrate_kbps'') @ '' kbps'') else JStr ''N/A'')
        (gt P (getProp fi ''total_bitrate_kbps'') 0
           \<and> lt P (getProp fi ''total_bitrate_kbps'') 2000
           \<and> ge P (orElse (getProp vid ''width'') (JNum 0)) 1920)
        ''File'',
      item ''Streams'' (JStr (toStr P (orElse (getProp fi ''nb_streams'') (JNum 0))))
        False ''File'']"

definition videoItems :: "platform \<Rightarrow> jsval \<Rightarrow> fp_item list" where
  "videoItems P vid =
     (if truthy (getProp vid ''codec'') then
        [item ''Video Codec''
           (JStr (toStr P (getProp vid ''codec'')
              @ (if truthy (getProp vid ''profile'')
                    \<and> \<not> strictEq (getProp vid ''profile'') (JStr ''unknown'')
                 then '' ('' @ toStr P (getProp vid ''profile'') @ '')'' else [])))
           False ''Video'',
         item ''Resolution'' (orElse (getProp vid ''resolution'') (JStr ''N/A'')) False ''Video'',
         item ''Aspect Ratio'' (orElse (getProp vid ''display_aspect_ratio'') (JStr ''N/A''))
           False ''Video'',
         item ''Frame Rate''
           (JStr (toStr P (orElse (getProp vid ''fps'') (JStr ''N/A'')) @ '' fps''
              @ (if truthy (getProp vid ''avg_fps'')
                    \<and> \<not> strictEq (getProp vid ''avg_fps'') (getProp vid ''fps'')
                 then '' (avg: '' @ toStr P (getProp vid ''avg_fps'') @ '')'' else [])))
           False ''Video'',
         item ''Video Bitrate''
           (if \<not> strictEq (getProp vid ''bitrate_kbps'') (JStr ''N/A'')
            then JStr (toStr P (getProp vid ''bitrate_kbps'') @ '' kbps'') else JStr ''N/A'')
           False ''Video'',
         item ''Pixel Format'' (orElse (getProp vid ''pixel_format'') (JStr ''unknown''))
           False ''Video'',
         item ''Bit Depth'' (JStr (toStr P (orElse (getProp vid ''bit_depth'') (JNum 8)) @ ''-bit''))
           False ''Video'',
         item ''Color Space''
           (if \<not> strictEq (getProp vid ''color_space'') (JStr ''unknown'')
            then getProp vid ''color_space'' else JStr ''N/A'')
           False ''Video'']
        @ (if truthy (getProp vid ''total_frames'')
           then [item ''Total Frames'' (JStr (localeStr P (getProp vid ''total_frames'')))
                   False ''Video'']
           else [])
        @ (if truthy (getProp vid ''rotation'')
              \<and> \<not> strictEq (getProp vid ''rotation'') (JStr ''0'')
           then [item ''Rotation''
                   (JStr (toStr P (getProp vid ''rotation'') @ [CHR 0xC2, CHR 0xB0]))
                   False ''Video'']
           else [])
      else [])"

definition audioItems :: "platform \<Rightarrow> jsval \<Rightarrow> fp_item list" where
  "audioItems P aud =
     (if truthy (getProp aud ''codec'') then
        [item ''Audio Codec''
           (JStr (toStr P (getProp aud ''codec'')
              @ (if truthy (getProp aud ''profile'')
                 then '' ('' @ toStr P (getProp aud ''profile'') @ '')'' else [])))
           False ''Audio'',
         item ''Sample Rate''
           (if truthy (getProp aud ''sample_rate_hz'')
            then JStr (localeStr P (getProp aud ''sample_rate_hz'') @ '' Hz'') else JStr ''N/A'')
           False ''Audio'',
         item ''Channels''
           (JStr (toStr P (orElse (getProp aud ''channels'') (JStr ''?'')) @ '' (''
              @ toStr P (orElse (getProp aud ''channel_layout'') (JStr ''unknown'')) @ '')''))
           False ''Audio'',
         item ''Audio Bitrate''
           (if \<not> strictEq (getProp aud ''bitrate_kbps'') (JStr ''N/A'')
            then JStr (toStr P (getProp aud ''bitrate_kbps'') @ '' kbps'') else JStr ''N/A'')
           False ''Audio'']
        @ (if truthy (getProp aud ''language'')
              \<and> \<not> strictEq (getProp aud ''language'') (JStr ''unknown'')
           then [item ''Language'' (getProp aud ''language'') False ''Audio'']
           else [])
      else [])"

definition deviceItems :: "jsval \<Rightarrow> fp_item list" where
  "deviceItems tags =
     (if truthy (getProp tags ''camera_device'')
      then [item ''Camera / Device'' (getProp tags ''camera_device'') False ''Device''] else [])
     @ (if truthy (getProp tags ''manufacturer'')
        then [item ''Manufacturer'' (getProp tags ''manufacturer'') False ''Device''] else [])
     @ (if truthy (getProp tags ''software_version'')
        then [item ''Software'' (getProp tags ''software_version'') False ''Device''] else [])"

definition gpsItems :: "jsval \<Rightarrow> fp_item list" where
  "gpsItems tags =
     (if truthy (getProp tags ''gps_location'')
      then [item ''GPS Location'' (getProp tags ''gps_location'') False ''Location'']
      else [item ''GPS Location'' (JStr ''Not available'') True ''Location''])"

definition tagItems :: "jsval \<Rightarrow> fp_item list" where
  "tagItems tags =
     (if truthy (getProp tags ''creation_time'')
      then [item ''Creation Time'' (getProp tags ''creation_time'') False ''Tags''] else [])
     @ (if truthy (getProp tags ''encoder'')
        then [item ''Encoder'' (getProp tags ''encoder'') True ''Tags''] else [])
     @ (if truthy (getProp tags ''major_brand'')
        then [item ''Major Brand'' (getProp tags ''major_brand'') False ''Tags''] else [])
     @ (if truthy (getProp tags ''title'')
        then [item ''Title'' (getProp tags ''title'') False ''Tags''] else [])
     @ (if truthy (getProp tags ''comment'')
        then [item ''Comment'' (getProp tags ''comment'') False ''Tags''] else [])"

definition buildFingerprint :: "platform \<Rightarrow> string \<Rightarrow> tab \<Rightarrow> jsval \<Rightarrow> fp_item list" where
  "buildFingerprint P ts t api =
     (if \<not> hasRealData api then fingerprint (mockResults ts t)
      else
        (let fi = orElse (getProp (realMeta api) ''file_info'') (JObj []);
             vid = orElse (getProp (realMeta api) ''video'') (JObj []);
             aud = orElse (getProp (realMeta api) ''audio'') (JObj []);
             tags = orElse (getProp (realMeta api) ''tags'') (JObj [])
         in fileItems P (realMeta api) fi vid @ videoItems P vid @ audioItems P aud
              @ deviceItems tags @ gpsItems tags @ tagItems tags))"

subsection \<open>buildStatus\<close>

definition buildStatus :: "platform \<Rightarrow> string \<Rightarrow> tab \<Rightarrow> jsval \<Rightarrow> string" where
  "buildStatus P ts t api =
     (let vl = getProp (videoML api) ''label'';
          tl = getProp (textML api) ''label'';
          vdef = (truthy (videoML api) \<and> truthy vl \<and> \<not> strictEq vl (JStr ''unknown''));
          tdef = (truthy (textML api) \<and> truthy tl \<and> \<not> strictEq tl (JStr ''unknown''))
      in if vdef \<and> strictEq vl (JStr ''fake'') then ''Deepfake Detected''
         else if vdef \<and> strictEq vl (JStr ''real'') then ''Likely Authentic''
         else if tdef \<and> strictEq tl (JStr ''ai-generated'') then ''AI-Generated Text''
         else if tdef \<and> strictEq tl (JStr ''human-written'') then ''Human-Written''
         else if hasRealData api \<and> \<not> strictEq (realScore api) JNull then
           (if ge P (realScore api) 70 then ''Likely Authentic''
            else if ge P (realScore api) 40 then ''Suspicious''
            else ''AI-Generated / Manipulated'')
         else status (mockResults ts t))"

subsection \<open>buildAnomalies\<close>

text \<open>
  \<open>flags.map(f => `${f.label}: ${f.detail}`)\<close>: reading a property of a \<open>null\<close> element
  throws, converting a label or a detail that is not printable throws, and so does
  calling \<open>map\<close> on a value with a positive \<open>length\<close> that is not an array (a string, or
  an object with a \<open>length\<close> property).
\<close>

fun mapE :: "('a \<Rightarrow> error + 'b) \<Rightarrow> 'a list \<Rightarrow> error + 'b list" where
  "mapE f [] = Inr []"
| "mapE f (x # xs) =
     (case f x of
        Inl e \<Rightarrow> Inl e
      | Inr y \<Rightarrow> (case mapE f xs of Inl e \<Rightarrow> Inl e | Inr ys \<Rightarrow> Inr (y # ys)))"

definition flagLine :: "platform \<Rightarrow> jsval \<Rightarrow> error + string" where
  "flagLine P f =
     (case dot f ''label'' of
        Inl e \<Rightarrow> Inl e
      | Inr l \<Rightarrow>
          (case toStrE P l of
             Inl e \<Rightarrow> Inl e
           | Inr ls \<Rightarrow>
               (case dot f ''detail'' of
                  Inl e \<Rightarrow> Inl e
                | Inr d \<Rightarrow>
                    (case toStrE P d of
                       Inl e \<Rightarrow> Inl e
                     | Inr ds \<Rightarrow> Inr (ls @ '': '' @ ds)))))"

text \<open>\<open>if (realRisk.flags && realRisk.flags.length > 0) items.push(...)\<close>.\<close>

definition flagEntries :: "platform \<Rightarrow> jsval \<Rightarrow> error + string list" where
  "flagEntries P api =
     (let flags = getProp (realRisk api) ''flags'' in
      if \<not> truthy flags then Inr []
      else
        (case gtE P (getProp flags ''length'') 0 of
           Inl e \<Rightarrow> Inl e
         | Inr positive \<Rightarrow>
             if positive
             then (case flags of JArr fs \<Rightarrow> mapE (flagLine P) fs | _ \<Rightarrow> Inl TypeError)
             else Inr []))"

text \<open>The entry pushed for a video the model labelled \<open>fake\<close>, given the items so far.\<close>

definition deepfakeEntry :: "platform \<Rightarrow> jsval \<Rightarrow> string list \<Rightarrow> error + string list" where
  "deepfakeEntry P api items =
     (if truthy (videoML api) \<and> strictEq (getProp (videoML api) ''label'') (JStr ''fake'')
         \<and> \<not> list_ex (\<lambda>i. strIncludes i ''Deepfake'') items
      then
        (case pctFixedE P 1 (getProp (videoML api) ''confidence'') of
           Inl e \<Rightarrow> Inl e
         | Inr p \<Rightarrow> Inr [''Deepfake Detected: ML model confidence '' @ p @ ''%''])
      else Inr [])"

text \<open>The entry pushed for a text the model labelled \<open>ai-generated\<close>.\<close>

definition aiTextEntry :: "platform \<Rightarrow> jsval \<Rightarrow> error + string list" where
  "aiTextEntry P api =
     (if truthy (textML api) \<and> strictEq (getProp (textML api) ''label'') (JStr ''ai-generated'')
      then
        (case pctFixedE P 1 (getProp (textML api) ''ai_probability'') of
           Inl e \<Rightarrow> Inl e
         | Inr p \<Rightarrow> Inr [''AI-Generated Text: '' @ p @ ''% probability''])
      else Inr [])"

definition buildAnomalies :: "platform \<Rightarrow> string \<Rightarrow> tab \<Rightarrow> jsval \<Rightarrow> error + string list" where
  "buildAnomalies P ts t api =
     (case flagEntries P api of
        Inl e \<Rightarrow> Inl e
      | Inr flagged \<Rightarrow>
          (case deepfakeEntry P api flagged of
             Inl e \<Rightarrow> Inl e
           | Inr deep \<Rightarrow>
               (case aiTextEntry P api of
                  Inl e \<Rightarrow> Inl e
                | Inr ai \<Rightarrow>
                    (let items = flagged @ deep @ ai in
                     if hasRealData api then Inr items
                     else Inr (if items \<noteq> [] then items else anomalies (mockResults ts t))))))"

subsection \<open>buildInsights\<close>

definition videoInsight :: "platform \<Rightarrow> jsval \<Rightarrow> error + string list" where
  "videoInsight P api =
     (let v = videoML api; l = getProp v ''label'' in
      if truthy v \<and> truthy l \<and> \<not> strictEq l (JStr ''unknown'') then
        (case pctFixedE P 1 (getProp v ''confidence'') of
           Inl e \<Rightarrow> Inl e
         | Inr p \<Rightarrow>
             if strictEq l (JStr ''fake'') then
               (if truthy (getProp v ''per_frame'') then
                  (case toStrE P (getProp (getProp v ''per_frame'') ''length'') of
                     Inl e \<Rightarrow> Inl e
                   | Inr n \<Rightarrow>
                       Inr [''The deepfake detection model classified this video as FAKE with ''
                              @ p @ ''% confidence. '' @ n @ '' frames were analyzed.''])
                else
                  Inr [''The deepfake detection model classified this video as FAKE with ''
                         @ p @ ''% confidence. ''])
             else
               Inr [''The deepfake detection model classified this video as REAL with '' @ p
                      @ ''% confidence. No manipulation artifacts were detected in the analyzed frames.''])
      else Inr [])"

definition textInsight :: "platform \<Rightarrow> jsval \<Rightarrow> error + string list" where
  "textInsight P api =
     (let v = textML api; l = getProp v ''label'' in
      if truthy v \<and> truthy l \<and> \<not> strictEq l (JStr ''unknown'') then
        (if strictEq l (JStr ''ai-generated'') then
           (case pctFixedE P 1 (getProp v ''ai_probability'') of
              Inl e \<Rightarrow> Inl e
            | Inr p \<Rightarrow>
                Inr [''The AI text detector identified this content as AI-generated with '' @ p
                       @ ''% probability. The text shows patterns consistent with large language model output.''])
         else
           (case pctFixedE P 1 (getProp v ''human_probability'') of
              Inl e \<Rightarrow> Inl e
            | Inr p \<Rightarrow>
                Inr [''The AI text detector identified this content as human-written with ''
                       @ p @ ''% probability.'']))
      else Inr [])"

definition articleInsight :: "platform \<Rightarrow> jsval \<Rightarrow> error + string list" where
  "articleInsight P api =
     (let ra = relatedArticles api in
      case gtE P (getProp ra ''length'') 0 of
        Inl e \<Rightarrow> Inl e
      | Inr positive \<Rightarrow>
          if positive then
            (let top = index0 ra in
             case dot top ''title'' of
               Inl e \<Rightarrow> Inl e
             | Inr title \<Rightarrow>
                 (case toStrE P (orElse title (JStr ''Untitled'')) of
                    Inl e \<Rightarrow> Inl e
                  | Inr ttl \<Rightarrow>
                      (case dot top ''similarity_score'' of
                         Inl e \<Rightarrow> Inl e
                       | Inr sim \<Rightarrow>
                           (case pctFixedE P 0 (orElse sim (JNum 0)) of
                              Inl e \<Rightarrow> Inl e
                            | Inr pct \<Rightarrow>
                                Inr [''Found '' @ toStr P (getProp ra ''length'')
                                       @ '' related fact-check article(s). Top match: ''
                                       @ [CHR 0x22] @ ttl @ [CHR 0x22]
                                       @ '' (similarity: '' @ pct @ ''%).'']))))
          else Inr [])"

definition buildInsights :: "platform \<Rightarrow> string \<Rightarrow> tab \<Rightarrow> jsval \<Rightarrow> error + string list" where
  "buildInsights P ts t api =
     (case videoInsight P api of
        Inl e \<Rightarrow> Inl e
      | Inr vid \<Rightarrow>
          (case textInsight P api of
             Inl e \<Rightarrow> Inl e
           | Inr txt \<Rightarrow>
               (case articleInsight P api of
                  Inl e \<Rightarrow> Inl e
                | Inr art \<Rightarrow>
                    (let items = vid @ txt @ art in
                     Inr (if items \<noteq> [] then items else insights (mockResults ts t))))))"

subsection \<open>The merged result and its colours\<close>

definition buildDriftData :: "platform \<Rightarrow> string \<Rightarrow> tab \<Rightarrow> jsval \<Rightarrow> jsval" where
  "buildDriftData P ts t api =
     (if truthy (getProp api ''drift_data'')
         \<and> gt P (getProp (getProp api ''drift_data'') ''length'') 0
      then getProp api ''drift_data''
      else driftData (mockResults ts t))"

definition result :: "platform \<Rightarrow> string \<Rightarrow> tab \<Rightarrow> jsval \<Rightarrow> error + analysis" where
  "result P ts t api =
     (case buildAnomalies P ts t api of
        Inl e \<Rightarrow> Inl e
      | Inr anoms \<Rightarrow>
          (case buildInsights P ts t api of
             Inl e \<Rightarrow> Inl e
           | Inr ins \<Rightarrow>
               Inr ((mockResults ts t)
                 \<lparr>score := coalesce (realScore api) (score (mockResults ts t)),
                  risk := coalesce (realRiskLevel api) (risk (mockResults ts t)),
                  status := buildStatus P ts t api,
                  confidence :=
                    coalesce (getProp (realRisk api) ''authenticity_score'')
                      (confidence (mockResults ts t)),
                  fingerprint := buildFingerprint P ts t api,
                  anomalies := anoms,
                  insights := ins,
                  driftData := buildDriftData P ts t api\<rparr>)))"

text \<open>
  \<open>riskConfig\<close> is what the object literal with the keys \<open>low\<close>, \<open>medium\<close> and \<open>high\<close>
  holds at the key \<open>result.risk\<close> (the key a value converts to is its string): the
  entry of an own key; for a key the literal inherits from \<open>Object.prototype\<close>, the
  inherited member, which is defined and has none of \<open>color\<close>, \<open>bg\<close>, \<open>border\<close> and
  \<open>label\<close>; and \<open>undefined\<close> for every other key.
\<close>

record risk_config =
  rc_color :: string
  rc_bg :: string
  rc_border :: string
  rc_label :: string

datatype risk_entry = Entry risk_config | Inherited | NoEntry

definition prototypeKeys :: "string list" where
  "prototypeKeys =
     [''constructor'', ''hasOwnProperty'', ''isPrototypeOf'', ''propertyIsEnumerable'',
      ''toLocaleString'', ''toString'', ''valueOf'', ''__proto__'', ''__defineGetter__'',
      ''__defineSetter__'', ''__lookupGetter__'', ''__lookupSetter__'']"

definition riskConfig :: "platform \<Rightarrow> jsval \<Rightarrow> risk_entry" where
  "riskConfig P r =
     (let k = toStr P r in
      if k = ''low'' then
        Entry \<lparr>rc_color = ''#00ff9d'', rc_bg = ''rgba(0, 255, 157, 0.1)'',
               rc_border = ''rgba(0, 255, 157, 0.2)'', rc_label = ''LOW RISK''\<rparr>
      else if k = ''medium'' then
        Entry \<lparr>rc_color = ''#ffd700'', rc_bg = ''rgba(255, 215, 0, 0.1)'',
               rc_border = ''rgba(255, 215, 0, 0.2)'', rc_label = ''MEDIUM RISK''\<rparr>
      else if k = ''high'' then
        Entry \<lparr>rc_color = ''#ff4444'', rc_bg = ''rgba(255, 68, 68, 0.1)'',
               rc_border = ''rgba(255, 68, 68, 0.2)'', rc_label = ''HIGH RISK''\<rparr>
      else if k \<in> set prototypeKeys then Inherited
      else NoEntry)"

datatype icon = CheckCircle | AlertTriangle | XCircle

definition statusIcon :: "platform \<Rightarrow> jsval \<Rightarrow> icon \<times> string" where
  "statusIcon P s =
     (if ge P s 75 then (CheckCircle, ''#00ff9d'')
      else if ge P s 45 then (AlertTriangle, ''#ffd700'')
      else (XCircle, ''#ff4444''))"

definition scoreColor :: "platform \<Rightarrow> jsval \<Rightarrow> string" where
  "scoreColor P s =
     (if ge P s 75 then ''#00ff9d'' else if ge P s 45 then ''#ffd700'' else ''#ff4444'')"


section \<open>The history page\<close>

text \<open>
  The history page shows a fixed table of earlier analyses, each with its score
  (typed as a number) and its risk level, and colours the one with \<open>getScoreColor\<close>
  and the other with \<open>getRiskConfig\<close>.
\<close>

record history_item =
  h_id :: string
  h_name :: string
  h_type :: tab
  h_score :: rat
  h_status :: string
  h_risk :: string
  h_date :: string
  h_time :: string
  h_summary :: string

definition mockHistory :: "history_item list" where
  "mockHistory =
     [
      \<lparr>h_id = ''1'', h_name = ''viral_video_leak.mp4'', h_type = Video,
        h_score = 18, h_status = ''AI-Generated'', h_risk = ''high'',
        h_date = ''2026-02-19'', h_time = ''14:32'',
        h_summary = ''Facial deepfake detected. GAN artifacts in frames 142'' @ [CHR 0xE2, CHR 0x80, CHR 0x93] @ ''189.''\<rparr>,
      \<lparr>h_id = ''2'', h_name = ''bank_call_recording.mp3'', h_type = Audio,
        h_score = 31, h_status = ''Synthetic Voice'', h_risk = ''high'',
        h_date = ''2026-02-19'', h_time = ''11:05'',
        h_summary = ''TTS voice cloning pattern detected. Matches ElevenLabs model.''\<rparr>,
      \<lparr>h_id = ''3'', h_name = ''health_news_article.txt'', h_type = Text,
        h_score = 72, h_status = ''Partially AI-Generated'', h_risk = ''medium'',
        h_date = ''2026-02-18'', h_time = ''16:44'',
        h_summary = ''Mixed human/AI authorship. 4 unverifiable factual claims.''\<rparr>,
      \<lparr>h_id = ''4'', h_name = ''protest_photo.jpg'', h_type = Image,
        h_score = 91, h_status = ''Authentic'', h_risk = ''low'',
        h_date = ''2026-02-18'', h_time = ''09:21'',
        h_summary = ''No manipulation detected. EXIF metadata consistent.''\<rparr>,
      \<lparr>h_id = ''5'', h_name = ''politician_speech.mp4'', h_type = Video,
        h_score = 44, h_status = ''Tampered'', h_risk = ''medium'',
        h_date = ''2026-02-17'', h_time = ''20:15'',
        h_summary = ''Original video detected, but audio has been replaced synthetically.''\<rparr>,
      \<lparr>h_id = ''6'', h_name = ''vaccine_misinformation.txt'', h_type = Text,
        h_score = 12, h_status = ''AI-Generated'', h_risk = ''high'',
        h_date = ''2026-02-17'', h_time = ''13:58'',
        h_summary = ''Fully AI-generated misinformation. All citations fabricated.''\<rparr>,
      \<lparr>h_id = ''7'', h_name = ''celebrity_voice_note.mp3'', h_type = Audio,
        h_score = 27, h_status = ''Synthetic Voice'', h_risk = ''high'',
        h_date = ''2026-02-16'', h_time = ''08:37'',
        h_summary = ''Celebrity voice cloned using AI. Do not trust this recording.''\<rparr>,
      \<lparr>h_id = ''8'', h_name = ''product_photo.png'', h_type = Image,
        h_score = 88, h_status = ''Authentic'', h_risk = ''low'',
        h_date = ''2026-02-15'', h_time = ''17:12'',
        h_summary = ''Image appears authentic with minor color correction.''\<rparr>,
      \<lparr>h_id = ''9'', h_name = ''breaking_news_clip.mp4'', h_type = Video,
        h_score = 79, h_status = ''Mostly Authentic'', h_risk = ''low'',
        h_date = ''2026-02-14'', h_time = ''22:48'',
        h_summary = ''No deepfake detected. Slight context reframing suspected.''\<rparr>,
      \<lparr>h_id = ''10'', h_name = ''suspicious_whatsapp.txt'', h_type = Text,
        h_score = 38, h_status = ''Suspicious'', h_risk = ''medium'',
        h_date = ''2026-02-13'', h_time = ''10:20'',
        h_summary = ''Chain message with unverifiable claims and fear-based language.''\<rparr>]"

definition getScoreColor :: "rat \<Rightarrow> string" where
  "getScoreColor s =
     (if s \<ge> 75 then ''#00ff9d'' else if s \<ge> 45 then ''#ffd700'' else ''#ff4444'')"

record history_risk_config =
  hc_color :: string
  hc_bg :: string
  hc_border :: string

definition getRiskConfig :: "string \<Rightarrow> history_risk_config option" where
  "getRiskConfig r =
     (if r = ''low'' then
        Some \<lparr>hc_color = ''#00ff9d'', hc_bg = ''#00ff9d10'', hc_border = ''#00ff9d30''\<rparr>
      else if r = ''medium'' then
        Some \<lparr>hc_color = ''#ffd700'', hc_bg = ''#ffd70010'', hc_border = ''#ffd70030''\<rparr>
      else if r = ''high'' then
        Some \<lparr>hc_color = ''#ff4444'', hc_bg = ''#ff444410'', hc_border = ''#ff444430''\<rparr>
      else None)"



section \<open>The request endpoint behind \<open>POST /analyze\<close>\<close>

text \<open>
  The frontend posts its form to a backend (\<open>backend.api\<close>, started by the start
  script) whose code is not among the sources. What the specification says of its
  upload path is modelled here: the endpoint hands the bytes to the ephemeral store,
  whose \<open>put\<close> enforces the size limit; the orchestrator invokes the detectors that apply
  to the declared kind; the store deletes the content when they have settled. The
  state records the contents held, how many were ever persisted and every detector
  invocation.
\<close>

datatype endpoint_error =
    InvalidRequest
  | BackendUnavailable
  | ContentTooLarge
  | UnsupportedFormat
  | InternalError

datatype detector =
    VideoDeepfake
  | AudioVoiceclone
  | TextOrigin
  | ImageManipulation
  | MetadataForensics
  | RelatedArticleLookup

record ephemeral_content =
  content_id :: nat
  byte_size :: nat
  modality :: tab

record backend_state =
  stored :: "ephemeral_content list"
  persisted :: nat
  invoked :: "detector list"

text \<open>
  Modelled from the spec: the configured maximum upload, "500MB", in bytes (the
  frontend's own unit: it prints \<open>size / 1024 / 1024\<close> as MB).
\<close>

definition maxUploadBytes :: nat where
  "maxUploadBytes = 500 * 1024 * 1024"

text \<open>
  Modelled from the spec: the ephemeral content store's \<open>put(bytes, modality)\<close>, not
  among the sources. "Size limit enforced at put (reject >500MB equivalent with a
  ContentTooLarge error)"; otherwise the content is persisted under a fresh id.
\<close>

definition put ::
  "nat \<Rightarrow> tab \<Rightarrow> backend_state \<Rightarrow> endpoint_error + (ephemeral_content \<times> backend_state)" where
  "put n m b =
     (if n > maxUploadBytes then Inl ContentTooLarge
      else
        (let c = \<lparr>content_id = persisted b, byte_size = n, modality = m\<rparr>
         in Inr (c, b\<lparr>stored := c # stored b, persisted := persisted b + 1\<rparr>)))"

text \<open>
  Modelled from the spec: the store's \<open>delete(id)\<close>, not among the sources:
  idempotent, it removes the content with that id.
\<close>

definition delete :: "nat \<Rightarrow> backend_state \<Rightarrow> backend_state" where
  "delete i b = b\<lparr>stored := filter (\<lambda>c. content_id c \<noteq> i) (stored b)\<rparr>"

text \<open>
  Modelled from the spec: the orchestrator's choice of detectors by declared kind,
  not among the sources ("video: video-deepfake, audio-voiceclone if audio track
  present, metadata-forensics; audio: audio-voiceclone, metadata-forensics; image:
  image-manipulation, metadata-forensics; text/URL: text-origin, related-article
  lookup"). Whether a video has an audio track is the argument \<open>audioTrack\<close>.
\<close>

definition applicable :: "tab \<Rightarrow> bool \<Rightarrow> detector list" where
  "applicable k audioTrack =
     (case k of
        Video \<Rightarrow>
          [VideoDeepfake] @ (if audioTrack then [AudioVoiceclone] else []) @ [MetadataForensics]
      | Audio \<Rightarrow> [AudioVoiceclone, MetadataForensics]
      | Image \<Rightarrow> [ImageManipulation, MetadataForensics]
      | Text \<Rightarrow> [TextOrigin, RelatedArticleLookup])"

text \<open>
  Modelled from the spec: the orchestrator's \<open>run\<close>, not among the sources, as far as
  the invocations go: every applicable detector is invoked once.
\<close>

definition runDetectors :: "tab \<Rightarrow> bool \<Rightarrow> backend_state \<Rightarrow> backend_state" where
  "runDetectors k audioTrack b = b\<lparr>invoked := invoked b @ applicable k audioTrack\<rparr>"

text \<open>
  Modelled from the spec: the endpoint's handling of one upload of \<open>n\<close> bytes of the
  declared kind \<open>k\<close>, with or without an audio track, not among the sources. Data flow: "Endpoint, Ephemeral Store (persist bytes),
  Orchestrator (fan-out to Detector Adapters), ..., Endpoint (response), Ephemeral
  Store (delete)"; a client input error is "reported immediately, no detector
  invocation, no content persisted". The report itself is not modelled: a handled
  upload returns the detectors that ran.
\<close>

definition handleUpload ::
  "nat \<Rightarrow> tab \<Rightarrow> bool \<Rightarrow> backend_state \<Rightarrow> (endpoint_error + detector list) \<times> backend_state" where
  "handleUpload n k audioTrack b =
     (case put n k b of
        Inl e \<Rightarrow> (Inl e, b)
      | Inr (c, b1) \<Rightarrow>
          (Inr (applicable k audioTrack),
           delete (content_id c) (runDetectors k audioTrack b1)))"


section \<open>The thresholds, the order of the sections, and inputs for the examples\<close>

text \<open>
  The fixed thresholds: a score of 75 or more goes with risk \<open>low\<close>, a score from 45
  up to 75 with \<open>medium\<close>, a score below 45 with \<open>high\<close>. The comparisons are the
  component's own.
\<close>

definition consistent :: "platform \<Rightarrow> jsval \<Rightarrow> jsval \<Rightarrow> bool" where
  "consistent P s r =
     ((ge P s 75 \<longrightarrow> r = JStr ''low'')
      \<and> (ge P s 45 \<and> lt P s 75 \<longrightarrow> r = JStr ''medium'')
      \<and> (lt P s 45 \<longrightarrow> r = JStr ''high''))"


text \<open>
  A runtime for the examples. Nothing an example shows depends on how it prints:
  every number prints as \<open>#\<close> and no string converts to a number.
\<close>

definition exampleRuntime :: platform where
  "exampleRuntime =
     \<lparr>numStr = (\<lambda>n. ''#''), strNum = (\<lambda>s. None), pctFixed = (\<lambda>d v. ''#''),
      localeStr = (\<lambda>v. ''#'')\<rparr>"

text \<open>A network for the examples: the backend answers every request with 200 and \<open>v\<close>.\<close>

definition healthyNetwork :: "jsval \<Rightarrow> network" where
  "healthyNetwork v =
     (\<lambda>req. Inr \<lparr>res_status = 200, res_statusText = ''OK'', res_text = [], res_json = Some v\<rparr>)"

text \<open>A network for the examples: no backend is listening, every fetch rejects.\<close>

definition deadNetwork :: network where
  "deadNetwork = (\<lambda>req. Inl NetworkError)"


section \<open>Authentication\<close>

text \<open>
  C10: the outcome of authentication is independent of the password. Two submissions
  of the login form (of the signup form) with the same email leave the provider in
  the same state whatever the two passwords are, and login and signup agree with
  each other; the entry stored under \<open>truth_x_user\<close> is the serialised object
  \<open>{ email }\<close>, the user is that object and \<open>isAuthenticated\<close> is true. Logout removes
  the entry and makes \<open>isAuthenticated\<close> false.
\<close>

theorem auth_ignores_password:
  "(login_email f = login_email f' \<longrightarrow>
      snd (login_handleSubmit js f st) = snd (login_handleSubmit js f' st))
   \<and> (signup_email g = signup_email g' \<longrightarrow>
      snd (signup_handleSubmit js g st) = snd (signup_handleSubmit js g' st))
   \<and> (login_email f = signup_email g \<longrightarrow>
      snd (login_handleSubmit js f st) = snd (signup_handleSubmit js g st))
   \<and> localStorage (snd (login_handleSubmit js f st)) ''truth_x_user''
        = Some (js (JObj [(''email'', JStr (login_email f))]))
   \<and> user (snd (login_handleSubmit js f st)) = Some \<lparr>email = login_email f\<rparr>
   \<and> isAuthenticated (snd (login_handleSubmit js f st))
   \<and> localStorage (snd (signup_handleSubmit js g st)) ''truth_x_user''
        = Some (js (JObj [(''email'', JStr (signup_email g))]))
   \<and> user (snd (signup_handleSubmit js g st)) = Some \<lparr>email = signup_email g\<rparr>
   \<and> isAuthenticated (snd (signup_handleSubmit js g st))
   \<and> localStorage (logout st) ''truth_x_user'' = None
   \<and> \<not> isAuthenticated (logout st)"
  by (simp add: login_handleSubmit_def signup_handleSubmit_def login_def signup_def
      logout_def isAuthenticated_def)

text \<open>
  At one email with the passwords \<open>hunter2\<close> and \<open>wrong\<close>, from a signed-out provider:
  the two logins and the signup end in the same state, signed in, and a logout after
  the login leaves nothing stored.
\<close>

theorem auth_ignores_password_witness:
  "snd (login_handleSubmit (\<lambda>v. toStr exampleRuntime (getProp v ''email''))
          \<lparr>login_email = ''a@b.io'', login_password = ''hunter2'', login_isLoading = False\<rparr>
          \<lparr>user = None, localStorage = Map.empty, route = ''/login''\<rparr>)
     = snd (login_handleSubmit (\<lambda>v. toStr exampleRuntime (getProp v ''email''))
          \<lparr>login_email = ''a@b.io'', login_password = ''wrong'', login_isLoading = False\<rparr>
          \<lparr>user = None, localStorage = Map.empty, route = ''/login''\<rparr>)
   \<and> snd (login_handleSubmit (\<lambda>v. toStr exampleRuntime (getProp v ''email''))
          \<lparr>login_email = ''a@b.io'', login_password = ''hunter2'', login_isLoading = False\<rparr>
          \<lparr>user = None, localStorage = Map.empty, route = ''/login''\<rparr>)
     = snd (signup_handleSubmit (\<lambda>v. toStr exampleRuntime (getProp v ''email''))
          \<lparr>signup_name = ''A'', signup_email = ''a@b.io'', signup_password = ''other'',
            signup_isLoading = False\<rparr>
          \<lparr>user = None, localStorage = Map.empty, route = ''/login''\<rparr>)
   \<and> localStorage (snd (login_handleSubmit (\<lambda>v. toStr exampleRuntime (getProp v ''email''))
          \<lparr>login_email = ''a@b.io'', login_password = ''hunter2'', login_isLoading = False\<rparr>
          \<lparr>user = None, localStorage = Map.empty, route = ''/login''\<rparr>)) ''truth_x_user''
     = Some ''a@b.io''
   \<and> isAuthenticated (snd (login_handleSubmit (\<lambda>v. toStr exampleRuntime (getProp v ''email''))
          \<lparr>login_email = ''a@b.io'', login_password = ''hunter2'', login_isLoading = False\<rparr>
          \<lparr>user = None, localStorage = Map.empty, route = ''/login''\<rparr>))
   \<and> localStorage (logout (snd (login_handleSubmit (\<lambda>v. toStr exampleRuntime (getProp v ''email''))
          \<lparr>login_email = ''a@b.io'', login_password = ''hunter2'', login_isLoading = False\<rparr>
          \<lparr>user = None, localStorage = Map.empty, route = ''/login''\<rparr>))) ''truth_x_user''
     = None"
  using auth_ignores_password
    [where f = "\<lparr>login_email = ''a@b.io'', login_password = ''hunter2'', login_isLoading = False\<rparr>"
       and f' = "\<lparr>login_email = ''a@b.io'', login_password = ''wrong'', login_isLoading = False\<rparr>"
       and g = "\<lparr>signup_name = ''A'', signup_email = ''a@b.io'', signup_password = ''other'',
                  signup_isLoading = False\<rparr>"
       and g' = "\<lparr>signup_name = ''A'', signup_email = ''a@b.io'', signup_password = ''other'',
                  signup_isLoading = False\<rparr>"
       and js = "\<lambda>v. toStr exampleRuntime (getProp v ''email'')"
       and st = "\<lparr>user = None, localStorage = Map.empty, route = ''/login''\<rparr>"]
    auth_ignores_password
    [where st = "snd (login_handleSubmit (\<lambda>v. toStr exampleRuntime (getProp v ''email''))
          \<lparr>login_email = ''a@b.io'', login_password = ''hunter2'', login_isLoading = False\<rparr>
          \<lparr>user = None, localStorage = Map.empty, route = ''/login''\<rparr>)"
       and f = "\<lparr>login_email = ''a@b.io'', login_password = ''hunter2'', login_isLoading = False\<rparr>"
       and f' = "\<lparr>login_email = ''a@b.io'', login_password = ''wrong'', login_isLoading = False\<rparr>"
       and g = "\<lparr>signup_name = ''A'', signup_email = ''a@b.io'', signup_password = ''other'',
                  signup_isLoading = False\<rparr>"
       and g' = "\<lparr>signup_name = ''A'', signup_email = ''a@b.io'', signup_password = ''other'',
                  signup_isLoading = False\<rparr>"
       and js = "\<lambda>v. toStr exampleRuntime (getProp v ''email'')"]
  by (simp add: login_handleSubmit_def signup_handleSubmit_def login_def signup_def
      logout_def isAuthenticated_def exampleRuntime_def)


section \<open>The health probe and the analysis request\<close>

lemma analyzeFile_requests:
  "fst (snd (analyzeFile net st)) =
     (if uploadedFile st = None \<and> trim (textInput st) = [] \<and> trim (urlInput st) = [] then []
      else if checkBackendHealth net = Inr True
      then [Get (API_URL @ ''/health''),
            analyzeRequest (uploadedFile st)
              (Some (if textInput st \<noteq> [] then textInput st else urlInput st))]
      else [Get (API_URL @ ''/health'')])"
  by (auto simp: analyzeFile_def startRealAnalysis_def Let_def checkBackendHealth_def
      split: sum.splits prod.splits)

lemma analyzeFile_aborted:
  "checkBackendHealth net = Inr False \<Longrightarrow>
   fst (analyzeFile net st) =
     (if uploadedFile st = None \<and> trim (textInput st) = [] \<and> trim (urlInput st) = [] then st
      else st\<lparr>stage := Idle, uploadProgress := 0\<rparr>)"
  by (simp add: analyzeFile_def)

lemma stripLeading_Nil: "stripLeading ws [] = []"
  by (subst stripLeading.simps) (auto split: option.splits simp: find_Some_iff)

lemma trim_Nil: "trim [] = []"
  by (simp add: trim_def stripLeading_Nil)

lemma guard_passed_form_nonempty:
  "\<not> (uploadedFile st = None \<and> trim (textInput st) = [] \<and> trim (urlInput st) = []) \<Longrightarrow>
   formData (uploadedFile st)
     (Some (if textInput st \<noteq> [] then textInput st else urlInput st)) \<noteq> []"
proof (cases "uploadedFile st")
  case (Some x)
  then show ?thesis by (simp add: formData_def)
next
  case None
  assume "\<not> (uploadedFile st = None \<and> trim (textInput st) = [] \<and> trim (urlInput st) = [])"
  with None have "trim (textInput st) \<noteq> [] \<or> trim (urlInput st) \<noteq> []" by simp
  then have "textInput st \<noteq> [] \<or> urlInput st \<noteq> []" using trim_Nil by metis
  then show ?thesis by (auto simp: formData_def None)
qed

text \<open>The intervals stop at 100, at the number of scan messages and at 100.\<close>

lemma uploadInterval_0: "uploadInterval 0 = 100"
  by (simp add: uploadInterval.simps)

lemma stepInterval_0: "stepInterval 0 = 7"
  by (simp add: stepInterval.simps scanMessages_def)

lemma progressInterval_0: "progressInterval 0 = 100"
  by (simp add: progressInterval.simps)

text \<open>
  A run with something to analyse, the backend up and an answer \<open>v\<close> to the analysis
  request ends on the results stage with \<open>v\<close> as \<open>apiResult\<close>.
\<close>

lemma analyzeFile_success:
  assumes "uploadedFile st \<noteq> None \<or> trim (textInput st) \<noteq> [] \<or> trim (urlInput st) \<noteq> []"
    and "checkBackendHealth net = Inr True"
    and "analyzeContent net (uploadedFile st)
           (Some (if textInput st \<noteq> [] then textInput st else urlInput st)) = Inr v"
  shows "fst (analyzeFile net st) =
           st\<lparr>stage := Results, uploadProgress := 100, scanProgress := 100, scanStep := 7,
              apiResult := v\<rparr>"
  using assms
  by (auto simp: analyzeFile_def startRealAnalysis_def Let_def uploadInterval_0 stepInterval_0
      progressInterval_0)

text \<open>
  The page never reads the size of the chosen file: with the backend up, a file of
  any size is posted.
\<close>

lemma analyzeFile_any_size:
  assumes "checkBackendHealth net = Inr True"
  shows "fst (snd (analyzeFile net (st\<lparr>uploadedFile := Some \<lparr>file_name = n, file_size = sz\<rparr>\<rparr>))) =
           [Get (API_URL @ ''/health''),
            Post (API_URL @ ''/analyze'')
              ((''video'', FileValue \<lparr>file_name = n, file_size = sz\<rparr>)
               # formData None (Some (if textInput st \<noteq> [] then textInput st else urlInput st)))]"
  using assms by (simp add: analyzeFile_requests analyzeRequest_def formData_def)

text \<open>
  C8: the health probe returns true if and only if \<open>GET /health\<close> resolves with a
  status in 200..299; it always returns a boolean (it never throws), and it returns
  false when the fetch rejects. When it returns false, \<open>analyzeFile\<close> sends nothing but
  the health request (no analysis request), leaves the stage where it was or back at
  idle, and leaves \<open>apiResult\<close> untouched.
\<close>

theorem health_probe_short_circuit:
  "(checkBackendHealth net = Inr True \<longleftrightarrow>
      (\<exists>res. net (Get (API_URL @ ''/health'')) = Inr res
         \<and> 200 \<le> res_status res \<and> res_status res \<le> 299))
   \<and> (\<exists>b. checkBackendHealth net = Inr b)
   \<and> ((\<exists>e. net (Get (API_URL @ ''/health'')) = Inl e) \<longrightarrow> checkBackendHealth net = Inr False)
   \<and> (checkBackendHealth net = Inr False \<longrightarrow>
        (\<forall>r \<in> set (fst (snd (analyzeFile net st))). r = Get (API_URL @ ''/health''))
        \<and> stage (fst (analyzeFile net st)) \<in> {stage st, Idle}
        \<and> apiResult (fst (analyzeFile net st)) = apiResult st)"
proof -
  have a: "checkBackendHealth net = Inr True \<longleftrightarrow>
      (\<exists>res. net (Get (API_URL @ ''/health'')) = Inr res
         \<and> 200 \<le> res_status res \<and> res_status res \<le> 299)"
    by (auto simp: checkBackendHealth_def ok_def split: sum.splits)
  have b: "\<exists>b. checkBackendHealth net = Inr b"
    by (cases "net (Get (API_URL @ ''/health''))") (auto simp: checkBackendHealth_def)
  have c: "(\<exists>e. net (Get (API_URL @ ''/health'')) = Inl e) \<longrightarrow> checkBackendHealth net = Inr False"
    by (auto simp: checkBackendHealth_def)
  have d: "checkBackendHealth net = Inr False \<longrightarrow>
        (\<forall>r \<in> set (fst (snd (analyzeFile net st))). r = Get (API_URL @ ''/health''))
        \<and> stage (fst (analyzeFile net st)) \<in> {stage st, Idle}
        \<and> apiResult (fst (analyzeFile net st)) = apiResult st"
    by (simp add: analyzeFile_requests analyzeFile_aborted)
  from a b c d show ?thesis by blast
qed

text \<open>
  With no backend listening and a file chosen, the probe is false, the only request
  is the health request and the page is back at idle; with a backend that answers
  200 the probe is true.
\<close>

theorem health_probe_short_circuit_witness:
  "checkBackendHealth deadNetwork = Inr False
   \<and> fst (snd (analyzeFile deadNetwork
        (initialPage\<lparr>uploadedFile := Some \<lparr>file_name = ''clip.mp4'', file_size = 1024\<rparr>\<rparr>)))
      = [Get ''http://localhost:8000/health'']
   \<and> stage (fst (analyzeFile deadNetwork
        (initialPage\<lparr>uploadedFile := Some \<lparr>file_name = ''clip.mp4'', file_size = 1024\<rparr>\<rparr>)))
      = Idle
   \<and> checkBackendHealth (healthyNetwork JNull) = Inr True"
  using health_probe_short_circuit
    [of deadNetwork "initialPage\<lparr>uploadedFile := Some \<lparr>file_name = ''clip.mp4'', file_size = 1024\<rparr>\<rparr>"]
    health_probe_short_circuit [of "healthyNetwork JNull" initialPage]
  by (simp add: deadNetwork_def healthyNetwork_def analyzeFile_requests analyzeFile_aborted
      checkBackendHealth_def ok_def API_URL_def initialPage_def)

text \<open>
  C3, as the code has it: the form \<open>analyzeContent\<close> builds holds the file field
  exactly when a file is passed and the query field exactly when a non-empty text is
  passed, so it holds both when both are passed. Every request \<open>analyzeFile\<close> sends is
  the health request or the analysis request built from the chosen file and
  \<open>textInput || urlInput\<close>, and that request never has an empty form. Whenever the
  guard of \<open>analyzeFile\<close> passes and the health probe is true, the page sends the
  health request and then exactly that analysis request. In particular, with a file
  chosen and the text or the URL field filled it sends the file field and the query
  field together, whatever the tab: no check of the page rejects the pair. With a
  file and both fields empty it sends the file alone, and with no file it sends the
  query alone.
\<close>

theorem analyze_request_fields:
  "(''video'' \<in> fst ` set (formData f text) \<longleftrightarrow> f \<noteq> None)
   \<and> (''query'' \<in> fst ` set (formData f text) \<longleftrightarrow> (\<exists>t. text = Some t \<and> t \<noteq> []))
   \<and> (\<forall>r \<in> set (fst (snd (analyzeFile net st))).
        r = Get (API_URL @ ''/health'')
        \<or> (r = Post (API_URL @ ''/analyze'')
                 (formData (uploadedFile st)
                    (Some (if textInput st \<noteq> [] then textInput st else urlInput st)))
            \<and> formData (uploadedFile st)
                 (Some (if textInput st \<noteq> [] then textInput st else urlInput st)) \<noteq> []))
   \<and> (\<not> (uploadedFile st = None \<and> trim (textInput st) = [] \<and> trim (urlInput st) = [])
        \<and> checkBackendHealth net = Inr True \<longrightarrow>
        fst (snd (analyzeFile net st)) =
          [Get (API_URL @ ''/health''),
           Post (API_URL @ ''/analyze'')
             (formData (uploadedFile st)
                (Some (if textInput st \<noteq> [] then textInput st else urlInput st)))])
   \<and> (\<forall>x. uploadedFile st = Some x \<and> (textInput st \<noteq> [] \<or> urlInput st \<noteq> [])
            \<and> checkBackendHealth net = Inr True \<longrightarrow>
        fst (snd (analyzeFile net st)) =
          [Get (API_URL @ ''/health''),
           Post (API_URL @ ''/analyze'')
             [(''video'', FileValue x),
              (''query'', TextValue (if textInput st \<noteq> [] then textInput st else urlInput st))]])
   \<and> (\<forall>x. uploadedFile st = Some x \<and> textInput st = [] \<and> urlInput st = []
            \<and> checkBackendHealth net = Inr True \<longrightarrow>
        fst (snd (analyzeFile net st)) =
          [Get (API_URL @ ''/health''), Post (API_URL @ ''/analyze'') [(''video'', FileValue x)]])
   \<and> (uploadedFile st = None \<and> (trim (textInput st) \<noteq> [] \<or> trim (urlInput st) \<noteq> [])
        \<and> checkBackendHealth net = Inr True \<longrightarrow>
        fst (snd (analyzeFile net st)) =
          [Get (API_URL @ ''/health''),
           Post (API_URL @ ''/analyze'')
             [(''query'', TextValue (if textInput st \<noteq> [] then textInput st else urlInput st))]])"
proof -
  let ?q = "if textInput st \<noteq> [] then textInput st else urlInput st"
  have a: "''video'' \<in> fst ` set (formData f text) \<longleftrightarrow> f \<noteq> None"
    by (auto simp: formData_def split: option.splits if_splits)
  have b: "''query'' \<in> fst ` set (formData f text) \<longleftrightarrow> (\<exists>t. text = Some t \<and> t \<noteq> [])"
    by (auto simp: formData_def split: option.splits if_splits)
  have c: "\<forall>r \<in> set (fst (snd (analyzeFile net st))).
        r = Get (API_URL @ ''/health'')
        \<or> (r = Post (API_URL @ ''/analyze'') (formData (uploadedFile st) (Some ?q))
            \<and> formData (uploadedFile st) (Some ?q) \<noteq> [])"
    using guard_passed_form_nonempty [of st]
    by (simp add: analyzeFile_requests analyzeRequest_def)
  have d: "\<not> (uploadedFile st = None \<and> trim (textInput st) = [] \<and> trim (urlInput st) = [])
        \<and> checkBackendHealth net = Inr True \<longrightarrow>
        fst (snd (analyzeFile net st)) =
          [Get (API_URL @ ''/health''),
           Post (API_URL @ ''/analyze'') (formData (uploadedFile st) (Some ?q))]"
    by (simp add: analyzeFile_requests analyzeRequest_def)
  have e: "\<forall>x. uploadedFile st = Some x \<and> (textInput st \<noteq> [] \<or> urlInput st \<noteq> [])
            \<and> checkBackendHealth net = Inr True \<longrightarrow>
        fst (snd (analyzeFile net st)) =
          [Get (API_URL @ ''/health''),
           Post (API_URL @ ''/analyze'') [(''video'', FileValue x), (''query'', TextValue ?q)]]"
    by (auto simp: analyzeFile_requests analyzeRequest_def formData_def)
  have g: "\<forall>x. uploadedFile st = Some x \<and> textInput st = [] \<and> urlInput st = []
            \<and> checkBackendHealth net = Inr True \<longrightarrow>
        fst (snd (analyzeFile net st)) =
          [Get (API_URL @ ''/health''), Post (API_URL @ ''/analyze'') [(''video'', FileValue x)]]"
    by (simp add: analyzeFile_requests analyzeRequest_def formData_def)
  have h: "uploadedFile st = None \<and> (trim (textInput st) \<noteq> [] \<or> trim (urlInput st) \<noteq> [])
        \<and> checkBackendHealth net = Inr True \<longrightarrow>
        fst (snd (analyzeFile net st)) =
          [Get (API_URL @ ''/health''), Post (API_URL @ ''/analyze'') [(''query'', TextValue ?q)]]"
  proof (intro impI, elim conjE)
    assume n: "uploadedFile st = None" and up: "checkBackendHealth net = Inr True"
      and t: "trim (textInput st) \<noteq> [] \<or> trim (urlInput st) \<noteq> []"
    from t have "textInput st \<noteq> [] \<or> urlInput st \<noteq> []" using trim_Nil by metis
    then have "formData None (Some ?q) = [(''query'', TextValue ?q)]"
      by (auto simp: formData_def)
    moreover have "fst (snd (analyzeFile net st)) =
        [Get (API_URL @ ''/health''), Post (API_URL @ ''/analyze'') (formData None (Some ?q))]"
      using n up t by (auto simp: analyzeFile_requests analyzeRequest_def)
    ultimately show "fst (snd (analyzeFile net st)) =
        [Get (API_URL @ ''/health''), Post (API_URL @ ''/analyze'') [(''query'', TextValue ?q)]]"
      by simp
  qed
  from a b c d e g h show ?thesis by blast
qed

text \<open>
  With the backend up: a text typed and no file sends the query field alone; the same
  text with a file chosen sends the file field and the query field in one request; a
  file alone sends the file field alone.
\<close>

theorem analyze_request_fields_witness:
  "''video'' \<in> fst ` set (formData (Some \<lparr>file_name = ''clip.mp4'', file_size = 1024\<rparr>) (Some ''hello''))
   \<and> ''query'' \<in> fst ` set (formData (Some \<lparr>file_name = ''clip.mp4'', file_size = 1024\<rparr>) (Some ''hello''))
   \<and> fst (snd (analyzeFile (healthyNetwork (JObj [])) (setTextInput ''hello'' initialPage)))
      = [Get ''http://localhost:8000/health'',
         Post ''http://localhost:8000/analyze'' [(''query'', TextValue ''hello'')]]
   \<and> fst (snd (analyzeFile (healthyNetwork (JObj []))
        (handleFileChange (Some \<lparr>file_name = ''clip.mp4'', file_size = 1024\<rparr>)
           (setTextInput ''hello'' initialPage))))
      = [Get ''http://localhost:8000/health'',
         Post ''http://localhost:8000/analyze''
           [(''video'', FileValue \<lparr>file_name = ''clip.mp4'', file_size = 1024\<rparr>),
            (''query'', TextValue ''hello'')]]
   \<and> fst (snd (analyzeFile (healthyNetwork (JObj []))
        (handleFileChange (Some \<lparr>file_name = ''clip.mp4'', file_size = 1024\<rparr>) initialPage)))
      = [Get ''http://localhost:8000/health'',
         Post ''http://localhost:8000/analyze''
           [(''video'', FileValue \<lparr>file_name = ''clip.mp4'', file_size = 1024\<rparr>)]]"
proof -
  let ?f = "\<lparr>file_name = ''clip.mp4'', file_size = 1024\<rparr>"
  have up: "checkBackendHealth (healthyNetwork (JObj [])) = Inr True"
    by (simp add: checkBackendHealth_def healthyNetwork_def ok_def)
  have t: "trim ''hello'' \<noteq> []"
    by (simp add: trim_def whiteSpace_def stripLeading.simps [of _ "''hello''"]
        stripLeading.simps [of _ "''olleh''"])
  from analyze_request_fields
      [of "Some ?f" "Some ''hello''" "healthyNetwork (JObj [])" "setTextInput ''hello'' initialPage"]
    analyze_request_fields
      [of "Some ?f" "Some ''hello''" "healthyNetwork (JObj [])"
          "handleFileChange (Some ?f) (setTextInput ''hello'' initialPage)"]
    analyze_request_fields
      [of "Some ?f" "Some ''hello''" "healthyNetwork (JObj [])"
          "handleFileChange (Some ?f) initialPage"]
  show ?thesis
    using up t
    by (simp add: setTextInput_def handleFileChange_def initialPage_def API_URL_def formData_def)
qed

text \<open>
  C3 as stated fails: on the video tab, with a URL typed into the URL field and a
  file dropped, pressing Analyze with the backend up sends one analysis request that
  carries both the file field and the query field.
\<close>

theorem analyze_request_both_fields:
  "fst (snd (analyzeFile (healthyNetwork (JObj []))
      (handleDrop (Some \<lparr>file_name = ''clip.mp4'', file_size = 1024\<rparr>)
         (setUrlInput ''https://example.com/a'' initialPage))))
   = [Get ''http://localhost:8000/health'',
      Post ''http://localhost:8000/analyze''
        [(''video'', FileValue \<lparr>file_name = ''clip.mp4'', file_size = 1024\<rparr>),
         (''query'', TextValue ''https://example.com/a'')]]"
  by (simp add: analyzeFile_requests healthyNetwork_def handleDrop_def setUrlInput_def
      initialPage_def checkBackendHealth_def ok_def API_URL_def analyzeRequest_def formData_def)

section \<open>The merged result\<close>

subsection \<open>Facts about the mock table\<close>

lemma mock_score:
  "score (mockResults ts Video) = JNum 18" "score (mockResults ts Audio) = JNum 31"
  "score (mockResults ts Text) = JNum 72" "score (mockResults ts Image) = JNum 91"
  by (simp_all add: mockResults_def mockResults_video_def mockResults_audio_def
      mockResults_text_def mockResults_image_def)

lemma mock_risk:
  "risk (mockResults ts Video) = JStr ''high''" "risk (mockResults ts Audio) = JStr ''high''"
  "risk (mockResults ts Text) = JStr ''medium''" "risk (mockResults ts Image) = JStr ''low''"
  by (simp_all add: mockResults_def mockResults_video_def mockResults_audio_def
      mockResults_text_def mockResults_image_def)

lemma mock_status:
  "status (mockResults ts Video) = ''AI-Generated''"
  "status (mockResults ts Audio) = ''Synthetic Voice''"
  "status (mockResults ts Text) = ''Partially AI-Generated''"
  "status (mockResults ts Image) = ''Authentic''"
  by (simp_all add: mockResults_def mockResults_video_def mockResults_audio_def
      mockResults_text_def mockResults_image_def)

lemma mock_consistent: "consistent P (score (mockResults ts t)) (risk (mockResults ts t))"
  by (cases t) (simp_all add: mock_score mock_risk consistent_def ge_def lt_def)

lemma mock_drift_length:
  "keysLength (driftData (mockResults ts Video)) = 8"
  "keysLength (driftData (mockResults ts Audio)) = 8"
  "keysLength (driftData (mockResults ts Text)) = 7"
  "keysLength (driftData (mockResults ts Image)) = 6"
  by (simp_all add: mockResults_def mockResults_video_def mockResults_audio_def
      mockResults_text_def mockResults_image_def)

lemma mock_drift_video:
  "driftData (mockResults ts Video) =
     JArr [JObj [(''t'', JStr ''0s''), (''v'', JNum 82)],
           JObj [(''t'', JStr ''5s''), (''v'', JNum 78)],
           JObj [(''t'', JStr ''10s''), (''v'', JNum 71)],
           JObj [(''t'', JStr ''15s''), (''v'', JNum 34)],
           JObj [(''t'', JStr ''20s''), (''v'', JNum 22)],
           JObj [(''t'', JStr ''25s''), (''v'', JNum 19)],
           JObj [(''t'', JStr ''30s''), (''v'', JNum 16)],
           JObj [(''t'', JStr ''35s''), (''v'', JNum 18)]]"
  by (simp add: mockResults_def mockResults_video_def)

text \<open>Only the fingerprint of the image entry reads the clock.\<close>

lemma mock_clock_free:
  "score (mockResults ts t) = score (mockResults ts' t)"
  "status (mockResults ts t) = status (mockResults ts' t)"
  "risk (mockResults ts t) = risk (mockResults ts' t)"
  "confidence (mockResults ts t) = confidence (mockResults ts' t)"
  "anomalies (mockResults ts t) = anomalies (mockResults ts' t)"
  "insights (mockResults ts t) = insights (mockResults ts' t)"
  "timeline (mockResults ts t) = timeline (mockResults ts' t)"
  "driftData (mockResults ts t) = driftData (mockResults ts' t)"
  "analysis.more (mockResults ts t) = analysis.more (mockResults ts' t)"
  by (cases t; simp add: mockResults_def mockResults_video_def mockResults_audio_def
      mockResults_text_def mockResults_image_def)+

lemma mock_fingerprint_clock_free:
  "t \<noteq> Image \<Longrightarrow> fingerprint (mockResults ts t) = fingerprint (mockResults ts' t)"
  by (cases t) (simp_all add: mockResults_def mockResults_video_def mockResults_audio_def
      mockResults_text_def)

lemma mock_image_timestamp:
  "fp_value (fingerprint (mockResults ts Image) ! 4) = JStr ts"
  by (simp add: mockResults_def mockResults_image_def)

subsection \<open>Facts about the builders\<close>

lemmas extract_defs =
  videoML_def textML_def relatedArticles_def hasMetadata_def hasML_def hasRealData_def
  realMeta_def realRisk_def realScore_def realRiskLevel_def orElse_def coalesce_def

lemma result_fields:
  assumes "result P ts t api = Inr r"
  shows "score r = coalesce (realScore api) (score (mockResults ts t))"
    and "risk r = coalesce (realRiskLevel api) (risk (mockResults ts t))"
    and "status r = buildStatus P ts t api"
    and "confidence r =
           coalesce (getProp (realRisk api) ''authenticity_score'') (confidence (mockResults ts t))"
    and "fingerprint r = buildFingerprint P ts t api"
    and "buildAnomalies P ts t api = Inr (anomalies r)"
    and "buildInsights P ts t api = Inr (insights r)"
    and "timeline r = timeline (mockResults ts t)"
    and "driftData r = buildDriftData P ts t api"
  using assms by (auto simp: result_def split: sum.splits)

lemma no_response_no_data:
  "api \<in> {JUndefined, JNull, JObj []} \<Longrightarrow> \<not> hasRealData api"
  by (auto simp: extract_defs)

lemma getProp_no_response:
  "api \<in> {JUndefined, JNull, JObj []} \<Longrightarrow> getProp api k = JUndefined"
  by auto

lemma status_no_data: "\<not> hasRealData api \<Longrightarrow> buildStatus P ts t api = status (mockResults ts t)"
  by (simp add: buildStatus_def hasRealData_def hasML_def Let_def)

lemma score_no_data:
  "\<not> hasRealData api \<Longrightarrow>
   coalesce (realScore api) (score (mockResults ts t)) = score (mockResults ts t)"
  by (simp add: hasRealData_def realScore_def coalesce_def)

lemma videoInsight_none: "\<not> truthy (videoML api) \<Longrightarrow> videoInsight P api = Inr []"
  by (simp add: videoInsight_def Let_def)

lemma textInsight_none: "\<not> truthy (textML api) \<Longrightarrow> textInsight P api = Inr []"
  by (simp add: textInsight_def Let_def)

lemma articleInsight_none:
  "\<not> truthy (getProp api ''related_articles'') \<Longrightarrow> articleInsight P api = Inr []"
  by (simp add: articleInsight_def relatedArticles_def orElse_def gtE_def gt_def Let_def)

lemma flagEntries_none:
  "\<not> truthy (getProp (realRisk api) ''flags'') \<Longrightarrow> flagEntries P api = Inr []"
  by (simp add: flagEntries_def Let_def)

lemma deepfakeEntry_none: "\<not> truthy (videoML api) \<Longrightarrow> deepfakeEntry P api items = Inr []"
  by (simp add: deepfakeEntry_def)

lemma aiTextEntry_none: "\<not> truthy (textML api) \<Longrightarrow> aiTextEntry P api = Inr []"
  by (simp add: aiTextEntry_def)

text \<open>
  The result for a response without ML analysis, related articles and risk
  assessment: the builders of the anomalies and of the insights convert nothing, and
  anomalies and insights are empty or the mock's.
\<close>

lemma result_plain:
  assumes "getProp api ''video_analysis'' = JUndefined"
    and "getProp api ''text_analysis'' = JUndefined"
    and "getProp api ''related_articles'' = JUndefined"
    and "getProp api ''risk_assessment'' = JUndefined"
  shows "result P ts t api =
     Inr ((mockResults ts t)
       \<lparr>score := coalesce (realScore api) (score (mockResults ts t)),
        risk := coalesce (realRiskLevel api) (risk (mockResults ts t)),
        status := buildStatus P ts t api,
        confidence := confidence (mockResults ts t),
        fingerprint := buildFingerprint P ts t api,
        anomalies := (if hasRealData api then [] else anomalies (mockResults ts t)),
        insights := insights (mockResults ts t),
        driftData := buildDriftData P ts t api\<rparr>)"
proof -
  have "flagEntries P api = Inr []"
    by (rule flagEntries_none) (simp add: realRisk_def orElse_def assms)
  moreover have "deepfakeEntry P api [] = Inr []"
    by (rule deepfakeEntry_none) (simp add: videoML_def assms)
  moreover have "aiTextEntry P api = Inr []"
    by (rule aiTextEntry_none) (simp add: textML_def assms)
  ultimately have a: "buildAnomalies P ts t api =
      Inr (if hasRealData api then [] else anomalies (mockResults ts t))"
    by (simp add: buildAnomalies_def)
  have "videoInsight P api = Inr []" by (rule videoInsight_none) (simp add: videoML_def assms)
  moreover have "textInsight P api = Inr []"
    by (rule textInsight_none) (simp add: textML_def assms)
  moreover have "articleInsight P api = Inr []" by (rule articleInsight_none) (simp add: assms)
  ultimately have i: "buildInsights P ts t api = Inr (insights (mockResults ts t))"
    by (simp add: buildInsights_def)
  have c: "coalesce (getProp (realRisk api) ''authenticity_score'') (confidence (mockResults ts t))
      = confidence (mockResults ts t)"
    by (simp add: realRisk_def orElse_def coalesce_def assms)
  show ?thesis by (simp add: result_def a i c)
qed

text \<open>With no response, or an empty one, the result is the mock entry itself.\<close>

lemma result_no_response:
  assumes "api \<in> {JUndefined, JNull, JObj []}"
  shows "result P ts t api = Inr (mockResults ts t)"
proof -
  have g: "\<And>k. getProp api k = JUndefined" using assms by (rule getProp_no_response)
  have nd: "\<not> hasRealData api" using assms by (rule no_response_no_data)
  have "buildDriftData P ts t api = driftData (mockResults ts t)"
    by (simp add: buildDriftData_def g)
  moreover have "buildFingerprint P ts t api = fingerprint (mockResults ts t)"
    using nd by (simp add: buildFingerprint_def)
  moreover have "buildStatus P ts t api = status (mockResults ts t)"
    using nd by (rule status_no_data)
  moreover have "coalesce (realScore api) (score (mockResults ts t)) = score (mockResults ts t)"
    by (simp add: realScore_def coalesce_def g)
  moreover have "coalesce (realRiskLevel api) (risk (mockResults ts t)) = risk (mockResults ts t)"
    by (simp add: realRiskLevel_def coalesce_def g)
  ultimately show ?thesis using nd by (simp add: result_plain g)
qed

lemma buildFingerprint_clock_free:
  "t \<noteq> Image \<or> hasRealData api \<Longrightarrow> buildFingerprint P ts t api = buildFingerprint P ts' t api"
  using mock_fingerprint_clock_free [of t ts ts'] by (auto simp: buildFingerprint_def)

lemma buildStatus_clock_free: "buildStatus P ts t api = buildStatus P ts' t api"
  unfolding buildStatus_def mock_clock_free(2) [of ts t ts'] by (rule refl)

lemma buildAnomalies_clock_free: "buildAnomalies P ts t api = buildAnomalies P ts' t api"
  unfolding buildAnomalies_def mock_clock_free(5) [of ts t ts'] by (rule refl)

lemma buildInsights_clock_free: "buildInsights P ts t api = buildInsights P ts' t api"
  unfolding buildInsights_def mock_clock_free(6) [of ts t ts'] by (rule refl)

lemma buildDriftData_clock_free: "buildDriftData P ts t api = buildDriftData P ts' t api"
  unfolding buildDriftData_def mock_clock_free(8) [of ts t ts'] by (rule refl)

text \<open>
  The flag entries: when they are built they are one \<open>label: detail\<close> line per element
  of the flags array, and they are built for an array whose elements are not \<open>null\<close>
  and have printable labels and details.
\<close>

lemma mapE_flagLine_built:
  "mapE (flagLine P) fs = Inr ys \<Longrightarrow>
   ys = map (\<lambda>f. toStr P (getProp f ''label'') @ '': '' @ toStr P (getProp f ''detail'')) fs"
  by (induction fs arbitrary: ys)
    (auto simp: flagLine_def dot_def toStrE_def split: sum.splits if_splits)

lemma mapE_flagLine:
  "\<forall>f \<in> set fs. \<not> nullish f \<and> printable (getProp f ''label'') \<and> printable (getProp f ''detail'')
   \<Longrightarrow> mapE (flagLine P) fs =
     Inr (map (\<lambda>f. toStr P (getProp f ''label'') @ '': '' @ toStr P (getProp f ''detail'')) fs)"
  by (induction fs) (simp_all add: flagLine_def dot_def toStrE_def)

lemma flagEntries_built:
  assumes "flagEntries P api = Inr flagged"
  shows "flagged =
     map (\<lambda>f. toStr P (getProp f ''label'') @ '': '' @ toStr P (getProp f ''detail''))
       (case getProp (realRisk api) ''flags'' of JArr fs \<Rightarrow> fs | _ \<Rightarrow> [])"
proof (cases "getProp (realRisk api) ''flags''")
  case (JArr fs)
  show ?thesis
  proof (cases fs)
    case Nil
    then show ?thesis using assms JArr by (simp add: flagEntries_def gtE_def gt_def)
  next
    case (Cons f fs')
    then have "mapE (flagLine P) fs = Inr flagged"
      using assms JArr by (simp add: flagEntries_def gtE_def gt_def)
    from mapE_flagLine_built [OF this] show ?thesis using JArr by simp
  qed
qed (use assms in \<open>auto simp: flagEntries_def gtE_def Let_def split: if_splits\<close>)

lemma flagEntries_array:
  assumes "getProp (realRisk api) ''flags'' = JArr fs"
    and "\<forall>f \<in> set fs. \<not> nullish f \<and> printable (getProp f ''label'')
           \<and> printable (getProp f ''detail'')"
  shows "flagEntries P api =
     Inr (map (\<lambda>f. toStr P (getProp f ''label'') @ '': '' @ toStr P (getProp f ''detail'')) fs)"
proof (cases fs)
  case Nil
  then show ?thesis using assms(1) by (simp add: flagEntries_def gtE_def gt_def)
next
  case (Cons f fs')
  have "gtE P (getProp (JArr fs) ''length'') 0 = Inr True" by (simp add: gtE_def gt_def Cons)
  then show ?thesis using assms(1) mapE_flagLine [OF assms(2)]
    by (simp add: flagEntries_def)
qed

text \<open>The two synthesized entries, when they are built and where they are built.\<close>

lemma deepfakeEntry_built:
  "deepfakeEntry P api items = Inr deep \<Longrightarrow>
   deep =
     (if truthy (videoML api) \<and> strictEq (getProp (videoML api) ''label'') (JStr ''fake'')
         \<and> \<not> list_ex (\<lambda>i. strIncludes i ''Deepfake'') items
      then [''Deepfake Detected: ML model confidence ''
              @ pctFixed P 1 (getProp (videoML api) ''confidence'') @ ''%'']
      else [])"
  by (auto simp: deepfakeEntry_def pctFixedE_def split: if_splits)

lemma deepfakeEntry_printable:
  "printable (getProp (videoML api) ''confidence'') \<Longrightarrow>
   deepfakeEntry P api items =
     Inr (if truthy (videoML api) \<and> strictEq (getProp (videoML api) ''label'') (JStr ''fake'')
             \<and> \<not> list_ex (\<lambda>i. strIncludes i ''Deepfake'') items
          then [''Deepfake Detected: ML model confidence ''
                  @ pctFixed P 1 (getProp (videoML api) ''confidence'') @ ''%'']
          else [])"
  by (simp add: deepfakeEntry_def pctFixedE_def)

lemma aiTextEntry_built:
  "aiTextEntry P api = Inr ai \<Longrightarrow>
   ai =
     (if truthy (textML api) \<and> strictEq (getProp (textML api) ''label'') (JStr ''ai-generated'')
      then [''AI-Generated Text: ''
              @ pctFixed P 1 (getProp (textML api) ''ai_probability'') @ ''% probability'']
      else [])"
  by (auto simp: aiTextEntry_def pctFixedE_def split: if_splits)

lemma aiTextEntry_printable:
  "printable (getProp (textML api) ''ai_probability'') \<Longrightarrow>
   aiTextEntry P api =
     Inr (if truthy (textML api) \<and> strictEq (getProp (textML api) ''label'') (JStr ''ai-generated'')
          then [''AI-Generated Text: ''
                  @ pctFixed P 1 (getProp (textML api) ''ai_probability'') @ ''% probability'']
          else [])"
  by (simp add: aiTextEntry_def pctFixedE_def)

lemma buildAnomalies_parts:
  assumes "hasRealData api" and "buildAnomalies P ts t api = Inr items"
  shows "\<exists>flagged deep ai.
           flagEntries P api = Inr flagged \<and> deepfakeEntry P api flagged = Inr deep
           \<and> aiTextEntry P api = Inr ai \<and> items = flagged @ deep @ ai"
  using assms by (auto simp: buildAnomalies_def Let_def split: sum.splits)

lemma buildAnomalies_real:
  assumes "hasRealData api" and "flagEntries P api = Inr flagged"
    and "deepfakeEntry P api flagged = Inr deep" and "aiTextEntry P api = Inr ai"
  shows "buildAnomalies P ts t api = Inr (flagged @ deep @ ai)"
  using assms by (simp add: buildAnomalies_def)

subsection \<open>Facts about the sections of a fingerprint\<close>

















section \<open>Score and risk level\<close>

text \<open>
  C1, as the code has it. The merged result takes its score and its risk level
  separately, each from the response when the response has it and from the mock
  entry otherwise; the component never derives the one from the other. So, for a
  result that was built: when the response has neither, the result has the mock
  entry's pair, which meets the thresholds; when the response has both, the result
  has the response's pair unchanged, and meets the thresholds exactly when the
  response does. The colour of the score, the colour of the status icon and the
  history page's \<open>getScoreColor\<close> follow the thresholds 75 and 45, and the colour of the
  risk badge is the colour of the score whenever the risk level meets the thresholds
  for a numeric score.
\<close>

theorem risk_score_consistency:
  "result P ts t api = Inr r \<Longrightarrow>
     score r = (if nullish (getProp api ''score'') then score (mockResults ts t)
                else getProp api ''score'')
   \<and> risk r = (if nullish (getProp api ''risk_level'') then risk (mockResults ts t)
               else getProp api ''risk_level'')
   \<and> consistent P (score (mockResults ts t)) (risk (mockResults ts t))
   \<and> (nullish (getProp api ''score'') \<and> nullish (getProp api ''risk_level'')
        \<longrightarrow> consistent P (score r) (risk r))
   \<and> (\<not> nullish (getProp api ''score'') \<and> \<not> nullish (getProp api ''risk_level'')
        \<longrightarrow> score r = getProp api ''score'' \<and> risk r = getProp api ''risk_level'')
   \<and> (consistent P (score r) (risk r) \<and> toNumber P (score r) \<noteq> None
        \<longrightarrow> (\<exists>c. riskConfig P (risk r) = Entry c \<and> rc_color c = scoreColor P (score r)))
   \<and> snd (statusIcon P (score r)) = scoreColor P (score r)
   \<and> (\<forall>x. getScoreColor x = scoreColor P (JNum x)
          \<and> (scoreColor P (JNum x) = ''#00ff9d'' \<longleftrightarrow> x \<ge> 75)
          \<and> (scoreColor P (JNum x) = ''#ffd700'' \<longleftrightarrow> 45 \<le> x \<and> x < 75)
          \<and> (scoreColor P (JNum x) = ''#ff4444'' \<longleftrightarrow> x < 45))"
proof -
  assume res: "result P ts t api = Inr r"
  have s: "score r = (if nullish (getProp api ''score'') then score (mockResults ts t)
                else getProp api ''score'')"
    using result_fields(1) [OF res]
    by (cases "getProp api ''score''") (simp_all add: realScore_def coalesce_def)
  have k: "risk r = (if nullish (getProp api ''risk_level'') then risk (mockResults ts t)
               else getProp api ''risk_level'')"
    using result_fields(2) [OF res]
    by (cases "getProp api ''risk_level''") (simp_all add: realRiskLevel_def coalesce_def)
  have m: "consistent P (score (mockResults ts t)) (risk (mockResults ts t))"
    by (rule mock_consistent)
  have a: "nullish (getProp api ''score'') \<and> nullish (getProp api ''risk_level'')
        \<longrightarrow> consistent P (score r) (risk r)"
    using m by (simp add: s k)
  have b: "\<not> nullish (getProp api ''score'') \<and> \<not> nullish (getProp api ''risk_level'')
        \<longrightarrow> score r = getProp api ''score'' \<and> risk r = getProp api ''risk_level''"
    by (simp add: s k)
  have c: "consistent P (score r) (risk r) \<and> toNumber P (score r) \<noteq> None
        \<longrightarrow> (\<exists>c. riskConfig P (risk r) = Entry c \<and> rc_color c = scoreColor P (score r))"
  proof (intro impI, elim conjE)
    assume con: "consistent P (score r) (risk r)" and num: "toNumber P (score r) \<noteq> None"
    then obtain x where x: "toNumber P (score r) = Some x" by auto
    consider "x \<ge> 75" | "45 \<le> x \<and> x < 75" | "x < 45" by linarith
    then show "\<exists>c. riskConfig P (risk r) = Entry c \<and> rc_color c = scoreColor P (score r)"
    proof cases
      case 1
      with con x have "risk r = JStr ''low''" by (simp add: consistent_def ge_def)
      with 1 x show ?thesis by (simp add: riskConfig_def scoreColor_def ge_def)
    next
      case 2
      with con x have "risk r = JStr ''medium''" by (simp add: consistent_def ge_def lt_def)
      with 2 x show ?thesis by (simp add: riskConfig_def scoreColor_def ge_def)
    next
      case 3
      with con x have "risk r = JStr ''high''" by (simp add: consistent_def lt_def)
      with 3 x show ?thesis by (simp add: riskConfig_def scoreColor_def ge_def)
    qed
  qed
  have d: "snd (statusIcon P (score r)) = scoreColor P (score r)"
    by (simp add: statusIcon_def scoreColor_def)
  have e: "\<forall>x. getScoreColor x = scoreColor P (JNum x)
          \<and> (scoreColor P (JNum x) = ''#00ff9d'' \<longleftrightarrow> x \<ge> 75)
          \<and> (scoreColor P (JNum x) = ''#ffd700'' \<longleftrightarrow> 45 \<le> x \<and> x < 75)
          \<and> (scoreColor P (JNum x) = ''#ff4444'' \<longleftrightarrow> x < 45)"
    by (auto simp: getScoreColor_def scoreColor_def ge_def)
  from s k m a b c d e show ?thesis by blast
qed

text \<open>
  On the text tab with an empty response the result is the mock entry: score 72 with
  risk \<open>medium\<close>, which meets the thresholds, badge and score both in \<open>#ffd700\<close>. With a
  response that has score 80 and risk level \<open>low\<close>, the result has that pair.
\<close>

theorem risk_score_consistency_witness:
  "result exampleRuntime ''19/2/2026, 2:32:07 pm'' Text (JObj [])
     = Inr (mockResults ''19/2/2026, 2:32:07 pm'' Text)
   \<and> consistent exampleRuntime (JNum 72) (JStr ''medium'')
   \<and> (\<exists>c. riskConfig exampleRuntime (JStr ''medium'') = Entry c
          \<and> rc_color c = scoreColor exampleRuntime (JNum 72))
   \<and> scoreColor exampleRuntime (JNum 72) = ''#ffd700''
   \<and> map_sum id score (result exampleRuntime ''19/2/2026, 2:32:07 pm'' Text
        (JObj [(''score'', JNum 80), (''risk_level'', JStr ''low'')])) = Inr (JNum 80)
   \<and> map_sum id risk (result exampleRuntime ''19/2/2026, 2:32:07 pm'' Text
        (JObj [(''score'', JNum 80), (''risk_level'', JStr ''low'')])) = Inr (JStr ''low'')"
proof -
  let ?api = "JObj [(''score'', JNum 80), (''risk_level'', JStr ''low'')]"
  have r: "result exampleRuntime ''19/2/2026, 2:32:07 pm'' Text (JObj [])
      = Inr (mockResults ''19/2/2026, 2:32:07 pm'' Text)"
    by (rule result_no_response) simp
  have "\<exists>r. result exampleRuntime ''19/2/2026, 2:32:07 pm'' Text ?api = Inr r"
    by (simp add: result_plain)
  then obtain r' where r': "result exampleRuntime ''19/2/2026, 2:32:07 pm'' Text ?api = Inr r'"
    by blast
  from risk_score_consistency [OF r] risk_score_consistency [OF r'] show ?thesis
    using r r' by (simp add: mock_score mock_risk scoreColor_def ge_def)
qed

text \<open>
  C1 as stated fails: on the video tab, a response that carries a score of 90 and no
  risk level is shown with score 90 and with the mock entry's risk \<open>high\<close>.
\<close>

theorem risk_score_mismatch:
  "map_sum id score (result exampleRuntime ''19/2/2026, 2:32:07 pm'' Video
      (JObj [(''score'', JNum 90)])) = Inr (JNum 90)
   \<and> map_sum id risk (result exampleRuntime ''19/2/2026, 2:32:07 pm'' Video
      (JObj [(''score'', JNum 90)])) = Inr (JStr ''high'')
   \<and> \<not> consistent exampleRuntime (JNum 90) (JStr ''high'')"
proof -
  have "result exampleRuntime ''19/2/2026, 2:32:07 pm'' Video (JObj [(''score'', JNum 90)]) =
     Inr ((mockResults ''19/2/2026, 2:32:07 pm'' Video)
       \<lparr>score := JNum 90,
        risk := JStr ''high'',
        status := buildStatus exampleRuntime ''19/2/2026, 2:32:07 pm'' Video (JObj [(''score'', JNum 90)]),
        confidence := confidence (mockResults ''19/2/2026, 2:32:07 pm'' Video),
        fingerprint := buildFingerprint exampleRuntime ''19/2/2026, 2:32:07 pm'' Video
           (JObj [(''score'', JNum 90)]),
        anomalies := [],
        insights := insights (mockResults ''19/2/2026, 2:32:07 pm'' Video),
        driftData := driftData (mockResults ''19/2/2026, 2:32:07 pm'' Video)\<rparr>)"
    by (subst result_plain)
      (simp_all add: realScore_def realRiskLevel_def coalesce_def mock_risk hasRealData_def
        buildDriftData_def)
  then show ?thesis by (simp add: consistent_def ge_def)
qed

text \<open>
  The status label of a response that has only a score is cut at 70 and 40, not at 75
  and 45: a score of 72 reads \<open>Likely Authentic\<close> in the colour of the middle tier.
\<close>

lemma buildStatus_score_only:
  "buildStatus P ts t (JObj [(''score'', JNum x)]) =
     (if x \<ge> 70 then ''Likely Authentic'' else if x \<ge> 40 then ''Suspicious''
      else ''AI-Generated / Manipulated'')"
  by (simp add: buildStatus_def extract_defs Let_def ge_def)

lemma status_and_colour_thresholds_differ:
  "buildStatus P ts t (JObj [(''score'', JNum 72)]) = ''Likely Authentic''
   \<and> scoreColor P (JNum 72) = ''#ffd700''"
  by (simp add: buildStatus_score_only scoreColor_def ge_def)

text \<open>
  The table of the history page is not built by the merge. Eight of its ten entries
  meet the thresholds; the entries 5 (score 44) and 10 (score 38) carry the risk level
  \<open>medium\<close>, and are shown with a red score beside a yellow risk badge.
\<close>

lemma mockHistory_thresholds:
  "map h_id (filter (\<lambda>it. \<not> consistent P (JNum (h_score it)) (JStr (h_risk it))) mockHistory)
     = [''5'', ''10'']"
  by (simp add: mockHistory_def consistent_def ge_def lt_def)

lemma mockHistory_colours:
  "map (\<lambda>it. (getScoreColor (h_score it), map_option hc_color (getRiskConfig (h_risk it))))
     (filter (\<lambda>it. h_id it = ''5'' \<or> h_id it = ''10'') mockHistory)
     = [(''#ff4444'', Some ''#ffd700''), (''#ff4444'', Some ''#ffd700'')]"
  by (simp add: mockHistory_def getScoreColor_def getRiskConfig_def)


section \<open>A response without evidence\<close>

text \<open>
  C2, as the code has it. When the response carries no score, no metadata and no ML
  analysis, the result that was built shows the mock entry of the active tab: its
  numeric score (18, 31, 72 or 91), its status and its fingerprint. With no response
  at all, or an empty one, nothing throws and the whole result is the mock entry.
\<close>

theorem no_evidence_shows_mock:
  "(\<not> hasRealData api \<and> result P ts t api = Inr r \<longrightarrow>
      score r = score (mockResults ts t)
      \<and> status r = status (mockResults ts t)
      \<and> fingerprint r = fingerprint (mockResults ts t)
      \<and> score r \<in> {JNum 18, JNum 31, JNum 72, JNum 91}
      \<and> status r \<in> {''AI-Generated'', ''Synthetic Voice'', ''Partially AI-Generated'',
                      ''Authentic''})
   \<and> (api \<in> {JUndefined, JNull, JObj []} \<longrightarrow> result P ts t api = Inr (mockResults ts t))"
proof -
  have a: "\<not> hasRealData api \<and> result P ts t api = Inr r \<longrightarrow>
      score r = score (mockResults ts t)
      \<and> status r = status (mockResults ts t)
      \<and> fingerprint r = fingerprint (mockResults ts t)"
  proof (intro impI, elim conjE)
    assume nd: "\<not> hasRealData api" and res: "result P ts t api = Inr r"
    show "score r = score (mockResults ts t) \<and> status r = status (mockResults ts t)
        \<and> fingerprint r = fingerprint (mockResults ts t)"
      using result_fields(1,3,5) [OF res] score_no_data [OF nd] status_no_data [OF nd]
      by (simp add: buildFingerprint_def nd)
  qed
  have b: "score (mockResults ts t) \<in> {JNum 18, JNum 31, JNum 72, JNum 91}"
    by (cases t) (simp_all add: mock_score)
  have c: "status (mockResults ts t) \<in> {''AI-Generated'', ''Synthetic Voice'',
      ''Partially AI-Generated'', ''Authentic''}"
    by (cases t) (simp_all add: mock_status)
  have d: "api \<in> {JUndefined, JNull, JObj []} \<longrightarrow> result P ts t api = Inr (mockResults ts t)"
    using result_no_response by blast
  from a b c d show ?thesis by metis
qed

text \<open>
  On the audio tab, a response that says only that the risk level is unknown has no
  real data and is shown with the mock score 31 and the mock status; with no response
  the result is the audio mock entry.
\<close>

theorem no_evidence_shows_mock_witness:
  "\<not> hasRealData (JObj [(''risk_level'', JStr ''unknown'')])
   \<and> map_sum id score (result exampleRuntime ''19/2/2026, 2:32:07 pm'' Audio
        (JObj [(''risk_level'', JStr ''unknown'')])) = Inr (JNum 31)
   \<and> map_sum id status (result exampleRuntime ''19/2/2026, 2:32:07 pm'' Audio
        (JObj [(''risk_level'', JStr ''unknown'')])) = Inr ''Synthetic Voice''
   \<and> result exampleRuntime ''19/2/2026, 2:32:07 pm'' Audio JNull
       = Inr (mockResults ''19/2/2026, 2:32:07 pm'' Audio)"
proof -
  let ?api = "JObj [(''risk_level'', JStr ''unknown'')]"
  have nd: "\<not> hasRealData ?api" by (simp add: extract_defs)
  have "\<exists>r. result exampleRuntime ''19/2/2026, 2:32:07 pm'' Audio ?api = Inr r"
    by (simp add: result_plain)
  then obtain r where r: "result exampleRuntime ''19/2/2026, 2:32:07 pm'' Audio ?api = Inr r"
    by blast
  from no_evidence_shows_mock [of ?api exampleRuntime "''19/2/2026, 2:32:07 pm''" Audio r]
    no_evidence_shows_mock [of JNull exampleRuntime "''19/2/2026, 2:32:07 pm''" Audio]
  show ?thesis using nd r by (simp add: mock_score mock_status)
qed

text \<open>
  C2 as stated fails: on the image tab, an empty response (no score, no metadata, no
  ML analysis) is shown with the score 91, the status \<open>Authentic\<close> and the risk \<open>low\<close>.
\<close>

theorem no_evidence_fabricated_score:
  "map_sum id score (result exampleRuntime ''19/2/2026, 2:32:07 pm'' Image (JObj []))
     = Inr (JNum 91)
   \<and> map_sum id status (result exampleRuntime ''19/2/2026, 2:32:07 pm'' Image (JObj []))
     = Inr ''Authentic''
   \<and> map_sum id risk (result exampleRuntime ''19/2/2026, 2:32:07 pm'' Image (JObj []))
     = Inr (JStr ''low'')"
proof -
  have "result exampleRuntime ''19/2/2026, 2:32:07 pm'' Image (JObj [])
      = Inr (mockResults ''19/2/2026, 2:32:07 pm'' Image)"
    by (rule result_no_response) simp
  then show ?thesis by (simp add: mock_score mock_status mock_risk)
qed


text \<open>
  The same holds for a response that states the sentinel itself, a \<open>null\<close> score and
  the risk level \<open>unknown\<close>: on the image tab it is shown with the mock score 91 and
  the status \<open>Authentic\<close>, and the risk badge has no entry for \<open>unknown\<close>.
\<close>

lemma unknown_sentinel_shows_mock:
  "hasRealData (JObj [(''score'', JNull), (''risk_level'', JStr ''unknown'')])
   \<and> map_sum id score (result P ts Image (JObj [(''score'', JNull), (''risk_level'', JStr ''unknown'')]))
       = Inr (JNum 91)
   \<and> map_sum id status (result P ts Image (JObj [(''score'', JNull), (''risk_level'', JStr ''unknown'')]))
       = Inr ''Authentic''
   \<and> map_sum id risk (result P ts Image (JObj [(''score'', JNull), (''risk_level'', JStr ''unknown'')]))
       = Inr (JStr ''unknown'')
   \<and> riskConfig P (JStr ''unknown'') = NoEntry"
proof -
  let ?api = "JObj [(''score'', JNull), (''risk_level'', JStr ''unknown'')]"
  have h: "hasRealData ?api" by (simp add: extract_defs)
  have s: "buildStatus P ts Image ?api = ''Authentic''"
    by (simp add: buildStatus_def extract_defs Let_def mock_status)
  show ?thesis
    by (simp add: result_plain h s realScore_def realRiskLevel_def coalesce_def mock_score
        riskConfig_def prototypeKeys_def)
qed


section \<open>The drift timeline\<close>

text \<open>
  C4, as the code has it. When the response has no drift data (\<open>drift_data\<close> absent,
  \<open>null\<close> or an empty array), the result that was built carries the mock entry's
  drift series of the active tab, six points or more; a non-empty array of the
  response is passed through unchanged.
\<close>

theorem drift_timeline_fallback:
  "result P ts t api = Inr r \<Longrightarrow>
     (getProp api ''drift_data'' \<in> {JUndefined, JNull, JArr []} \<longrightarrow>
        driftData r = driftData (mockResults ts t) \<and> keysLength (driftData r) \<ge> 6)
   \<and> (\<forall>x xs. getProp api ''drift_data'' = JArr (x # xs) \<longrightarrow> driftData r = JArr (x # xs))"
proof -
  assume res: "result P ts t api = Inr r"
  have d: "driftData r = buildDriftData P ts t api" using result_fields(9) [OF res] .
  have m: "keysLength (driftData (mockResults ts t)) \<ge> 6"
    by (cases t) (simp_all add: mock_drift_length)
  have a: "getProp api ''drift_data'' \<in> {JUndefined, JNull, JArr []} \<longrightarrow>
        driftData r = driftData (mockResults ts t) \<and> keysLength (driftData r) \<ge> 6"
    using m by (auto simp: d buildDriftData_def gt_def)
  have b: "\<forall>x xs. getProp api ''drift_data'' = JArr (x # xs) \<longrightarrow> driftData r = JArr (x # xs)"
    by (auto simp: d buildDriftData_def gt_def)
  from a b show ?thesis by blast
qed

text \<open>
  On the text tab: an empty \<open>drift_data\<close> array gives the mock series, an array of one
  point is passed through.
\<close>

theorem drift_timeline_fallback_witness:
  "map_sum id driftData (result exampleRuntime ''19/2/2026, 2:32:07 pm'' Text
      (JObj [(''drift_data'', JArr [])]))
     = Inr (driftData (mockResults ''19/2/2026, 2:32:07 pm'' Text))
   \<and> map_sum id driftData (result exampleRuntime ''19/2/2026, 2:32:07 pm'' Text
        (JObj [(''drift_data'', JArr [JObj [(''t'', JStr ''P1''), (''v'', JNum 40)]])]))
     = Inr (JArr [JObj [(''t'', JStr ''P1''), (''v'', JNum 40)]])"
proof -
  let ?a1 = "JObj [(''drift_data'', JArr [])]"
  let ?a2 = "JObj [(''drift_data'', JArr [JObj [(''t'', JStr ''P1''), (''v'', JNum 40)]])]"
  have "\<exists>r. result exampleRuntime ''19/2/2026, 2:32:07 pm'' Text ?a1 = Inr r"
    by (simp add: result_plain)
  then obtain r1 where r1: "result exampleRuntime ''19/2/2026, 2:32:07 pm'' Text ?a1 = Inr r1"
    by blast
  have "\<exists>r. result exampleRuntime ''19/2/2026, 2:32:07 pm'' Text ?a2 = Inr r"
    by (simp add: result_plain)
  then obtain r2 where r2: "result exampleRuntime ''19/2/2026, 2:32:07 pm'' Text ?a2 = Inr r2"
    by blast
  from drift_timeline_fallback [OF r1] drift_timeline_fallback [OF r2]
  show ?thesis using r1 r2 by simp
qed

text \<open>
  C4 as stated fails: on the video tab, a response with a score and a risk level and
  no drift data is shown with the eight points of the mock entry's series.
\<close>

theorem drift_timeline_fabricated:
  "map_sum id driftData (result exampleRuntime ''19/2/2026, 2:32:07 pm'' Video
      (JObj [(''score'', JNum 18), (''risk_level'', JStr ''high'')]))
   = Inr (JArr [JObj [(''t'', JStr ''0s''), (''v'', JNum 82)],
                JObj [(''t'', JStr ''5s''), (''v'', JNum 78)],
                JObj [(''t'', JStr ''10s''), (''v'', JNum 71)],
                JObj [(''t'', JStr ''15s''), (''v'', JNum 34)],
                JObj [(''t'', JStr ''20s''), (''v'', JNum 22)],
                JObj [(''t'', JStr ''25s''), (''v'', JNum 19)],
                JObj [(''t'', JStr ''30s''), (''v'', JNum 16)],
                JObj [(''t'', JStr ''35s''), (''v'', JNum 18)]])"
proof -
  let ?api = "JObj [(''score'', JNum 18), (''risk_level'', JStr ''high'')]"
  have "\<exists>r. result exampleRuntime ''19/2/2026, 2:32:07 pm'' Video ?api = Inr r"
    by (simp add: result_plain)
  then obtain r where r: "result exampleRuntime ''19/2/2026, 2:32:07 pm'' Video ?api = Inr r"
    by blast
  have "driftData r = buildDriftData exampleRuntime ''19/2/2026, 2:32:07 pm'' Video ?api"
    using result_fields(9) [OF r] .
  then have "driftData r = driftData (mockResults ''19/2/2026, 2:32:07 pm'' Video)"
    by (simp add: buildDriftData_def)
  then show ?thesis using r by (simp add: mock_drift_video)
qed


section \<open>Dependence on the clock\<close>

text \<open>
  C5, as the code has it. The result is a function of the runtime, the tab, the
  response and the one clock reading taken when the module was loaded, and it
  depends on that reading only through the \<open>Timestamp\<close> entry of the image tab's mock
  fingerprint: on every other tab, and for every response with real data, it is the
  same for every reading; on the image tab without real data, two readings that give
  the same built result are the same reading.
\<close>

theorem result_clock_independence:
  "(t \<noteq> Image \<or> hasRealData api \<longrightarrow> result P ts t api = result P ts' t api)
   \<and> (t = Image \<and> \<not> hasRealData api
        \<and> result P ts t api = Inr r \<and> result P ts' t api = Inr r \<longrightarrow> ts = ts')"
proof -
  have a: "result P ts t api = result P ts' t api" if h: "t \<noteq> Image \<or> hasRealData api"
  proof -
    have rec: "\<And>s k st c f a i d.
        (mockResults ts t)\<lparr>score := s, risk := k, status := st, confidence := c,
           fingerprint := f, anomalies := a, insights := i, driftData := d\<rparr>
        = (mockResults ts' t)\<lparr>score := s, risk := k, status := st, confidence := c,
           fingerprint := f, anomalies := a, insights := i, driftData := d\<rparr>"
      by (rule analysis.equality) (simp_all add: mock_clock_free(7,9) [of ts t ts'])
    show ?thesis
      unfolding result_def buildAnomalies_clock_free [of P ts t api ts']
        buildInsights_clock_free [of P ts t api ts'] buildStatus_clock_free [of P ts t api ts']
        buildDriftData_clock_free [of P ts t api ts'] buildFingerprint_clock_free [OF h, of P ts ts']
        mock_clock_free(1,3,4) [of ts t ts'] rec
      by (rule refl)
  qed
  have b: "ts = ts'"
    if t: "t = Image" and nd: "\<not> hasRealData api"
      and r1: "result P ts t api = Inr r" and r2: "result P ts' t api = Inr r"
  proof -
    have "fingerprint r = fingerprint (mockResults ts Image)"
      using result_fields(5) [OF r1] nd t by (simp add: buildFingerprint_def)
    moreover have "fingerprint r = fingerprint (mockResults ts' Image)"
      using result_fields(5) [OF r2] nd t by (simp add: buildFingerprint_def)
    ultimately have "fp_value (fingerprint (mockResults ts Image) ! 4)
        = fp_value (fingerprint (mockResults ts' Image) ! 4)"
      by simp
    then show ?thesis by (simp add: mock_image_timestamp)
  qed
  from a b show ?thesis by blast
qed

text \<open>
  One second apart: the same result on the image tab for a response with a score, and
  on the video tab for an empty response. On the image tab an empty response has no
  real data and its result is built.
\<close>

theorem result_clock_independence_witness:
  "result exampleRuntime ''19/2/2026, 2:32:07 pm'' Image (JObj [(''score'', JNum 91)])
     = result exampleRuntime ''19/2/2026, 2:32:08 pm'' Image (JObj [(''score'', JNum 91)])
   \<and> result exampleRuntime ''19/2/2026, 2:32:07 pm'' Video (JObj [])
     = result exampleRuntime ''19/2/2026, 2:32:08 pm'' Video (JObj [])
   \<and> \<not> hasRealData (JObj [])
   \<and> result exampleRuntime ''19/2/2026, 2:32:07 pm'' Image (JObj [])
     = Inr (mockResults ''19/2/2026, 2:32:07 pm'' Image)"
proof -
  have a: "hasRealData (JObj [(''score'', JNum 91)])" by (simp add: extract_defs)
  have n: "\<not> hasRealData (JObj [])" by (rule no_response_no_data) simp
  have r: "result exampleRuntime ''19/2/2026, 2:32:07 pm'' Image (JObj [])
      = Inr (mockResults ''19/2/2026, 2:32:07 pm'' Image)"
    by (rule result_no_response) simp
  from result_clock_independence
      [of Image "JObj [(''score'', JNum 91)]" exampleRuntime "''19/2/2026, 2:32:07 pm''"
          "''19/2/2026, 2:32:08 pm''"]
    result_clock_independence
      [of Video "JObj []" exampleRuntime "''19/2/2026, 2:32:07 pm''" "''19/2/2026, 2:32:08 pm''"]
    result_clock_independence
      [of Image "JObj []" exampleRuntime "''19/2/2026, 2:32:07 pm''" "''19/2/2026, 2:32:07 pm''"
          "mockResults ''19/2/2026, 2:32:07 pm'' Image"]
  show ?thesis using a n r by simp
qed

text \<open>
  C5 as stated fails: on the image tab with an empty response, the result built by a
  module loaded at 2:32:07 pm differs from the one built by a module loaded a second
  later.
\<close>

theorem result_depends_on_clock:
  "result exampleRuntime ''19/2/2026, 2:32:07 pm'' Image (JObj [])
     \<noteq> result exampleRuntime ''19/2/2026, 2:32:08 pm'' Image (JObj [])"
proof
  assume "result exampleRuntime ''19/2/2026, 2:32:07 pm'' Image (JObj [])
     = result exampleRuntime ''19/2/2026, 2:32:08 pm'' Image (JObj [])"
  then have "mockResults ''19/2/2026, 2:32:07 pm'' Image = mockResults ''19/2/2026, 2:32:08 pm'' Image"
    by (simp add: result_no_response)
  then have "fp_value (fingerprint (mockResults ''19/2/2026, 2:32:07 pm'' Image) ! 4)
      = fp_value (fingerprint (mockResults ''19/2/2026, 2:32:08 pm'' Image) ! 4)"
    by simp
  then show False by (simp add: mock_image_timestamp)
qed


section \<open>Anomalies of a response with real data\<close>

text \<open>
  C9: when the response contains real data (metadata, ML analysis or a score), an
  anomaly list that is built is exactly this, in this order: one line \<open>label: detail\<close>
  for each element of the response's array of risk flags; then, if the video model's
  label is \<open>fake\<close> and no flag line contains \<open>Deepfake\<close>, the entry
  \<open>Deepfake Detected: ML model confidence ...%\<close>; then, if the text model's label is
  \<open>ai-generated\<close>, the entry \<open>AI-Generated Text: ...% probability\<close>. No entry of the mock
  table is in it unless the response put it there: the list does not depend on the
  tab or on the mock table, and with no flags and no such label it is empty. The
  list is built whenever the flags are absent or an array of elements that are not
  \<open>null\<close> and have printable labels and details, and the two model figures are
  printable. The result carries the same list.
\<close>

theorem real_anomalies_exclude_mock:
  "hasRealData api \<Longrightarrow>
     (let flags = (case getProp (realRisk api) ''flags'' of JArr fs \<Rightarrow> fs | _ \<Rightarrow> []);
          flagLines =
            map (\<lambda>f. toStr P (getProp f ''label'') @ '': '' @ toStr P (getProp f ''detail'')) flags;
          deepfake =
            (if truthy (videoML api) \<and> strictEq (getProp (videoML api) ''label'') (JStr ''fake'')
                \<and> \<not> list_ex (\<lambda>i. strIncludes i ''Deepfake'') flagLines
             then [''Deepfake Detected: ML model confidence ''
                     @ pctFixed P 1 (getProp (videoML api) ''confidence'') @ ''%'']
             else []);
          aiText =
            (if truthy (textML api) \<and> strictEq (getProp (textML api) ''label'') (JStr ''ai-generated'')
             then [''AI-Generated Text: ''
                     @ pctFixed P 1 (getProp (textML api) ''ai_probability'') @ ''% probability'']
             else [])
      in (\<forall>items. buildAnomalies P ts t api = Inr items \<longrightarrow> items = flagLines @ deepfake @ aiText)
         \<and> ((\<not> truthy (getProp (realRisk api) ''flags'')
                \<or> (\<exists>fs. getProp (realRisk api) ''flags'' = JArr fs))
             \<and> (\<forall>f \<in> set flags. \<not> nullish f \<and> printable (getProp f ''label'')
                   \<and> printable (getProp f ''detail''))
             \<and> printable (getProp (videoML api) ''confidence'')
             \<and> printable (getProp (textML api) ''ai_probability'')
             \<longrightarrow> buildAnomalies P ts t api = Inr (flagLines @ deepfake @ aiText))
         \<and> (\<not> truthy (getProp (realRisk api) ''flags'') \<and> \<not> truthy (videoML api)
             \<and> \<not> truthy (textML api) \<longrightarrow> buildAnomalies P ts t api = Inr [])
         \<and> buildAnomalies P ts t api = buildAnomalies P ts' t' api
         \<and> (\<forall>r. result P ts t api = Inr r \<longrightarrow> anomalies r = flagLines @ deepfake @ aiText))"
proof -
  assume h: "hasRealData api"
  define flags where "flags = (case getProp (realRisk api) ''flags'' of JArr fs \<Rightarrow> fs | _ \<Rightarrow> [])"
  define flagLines where "flagLines =
    map (\<lambda>f. toStr P (getProp f ''label'') @ '': '' @ toStr P (getProp f ''detail'')) flags"
  define deepfake where "deepfake =
    (if truthy (videoML api) \<and> strictEq (getProp (videoML api) ''label'') (JStr ''fake'')
        \<and> \<not> list_ex (\<lambda>i. strIncludes i ''Deepfake'') flagLines
     then [''Deepfake Detected: ML model confidence ''
             @ pctFixed P 1 (getProp (videoML api) ''confidence'') @ ''%'']
     else [])"
  define aiText where "aiText =
    (if truthy (textML api) \<and> strictEq (getProp (textML api) ''label'') (JStr ''ai-generated'')
     then [''AI-Generated Text: ''
             @ pctFixed P 1 (getProp (textML api) ''ai_probability'') @ ''% probability'']
     else [])"
  have built: "items = flagLines @ deepfake @ aiText"
    if "buildAnomalies P ts t api = Inr items" for items ts t
  proof -
    from buildAnomalies_parts [OF h that] obtain flagged deep ai
      where f: "flagEntries P api = Inr flagged" and d: "deepfakeEntry P api flagged = Inr deep"
        and a: "aiTextEntry P api = Inr ai" and i: "items = flagged @ deep @ ai"
      by blast
    have "flagged = flagLines"
      using flagEntries_built [OF f] by (simp add: flagLines_def flags_def)
    moreover from this have "deep = deepfake"
      using deepfakeEntry_built [OF d] by (simp add: deepfake_def)
    moreover have "ai = aiText" using aiTextEntry_built [OF a] by (simp add: aiText_def)
    ultimately show ?thesis using i by simp
  qed
  have a: "\<forall>items. buildAnomalies P ts t api = Inr items \<longrightarrow> items = flagLines @ deepfake @ aiText"
    using built by blast
  have b: "(\<not> truthy (getProp (realRisk api) ''flags'')
                \<or> (\<exists>fs. getProp (realRisk api) ''flags'' = JArr fs))
             \<and> (\<forall>f \<in> set flags. \<not> nullish f \<and> printable (getProp f ''label'')
                   \<and> printable (getProp f ''detail''))
             \<and> printable (getProp (videoML api) ''confidence'')
             \<and> printable (getProp (textML api) ''ai_probability'')
             \<longrightarrow> buildAnomalies P ts t api = Inr (flagLines @ deepfake @ aiText)"
  proof (intro impI, elim conjE)
    assume shape: "\<not> truthy (getProp (realRisk api) ''flags'')
                \<or> (\<exists>fs. getProp (realRisk api) ''flags'' = JArr fs)"
      and els: "\<forall>f \<in> set flags. \<not> nullish f \<and> printable (getProp f ''label'')
                   \<and> printable (getProp f ''detail'')"
      and pc: "printable (getProp (videoML api) ''confidence'')"
      and pa: "printable (getProp (textML api) ''ai_probability'')"
    have "\<exists>flagged. flagEntries P api = Inr flagged"
    proof (cases "truthy (getProp (realRisk api) ''flags'')")
      case False
      then show ?thesis by (simp add: flagEntries_none)
    next
      case True
      with shape obtain fs where fs: "getProp (realRisk api) ''flags'' = JArr fs" by blast
      with els have "\<forall>f \<in> set fs. \<not> nullish f \<and> printable (getProp f ''label'')
                   \<and> printable (getProp f ''detail'')"
        by (simp add: flags_def)
      from flagEntries_array [OF fs this] show ?thesis by blast
    qed
    then obtain flagged where f: "flagEntries P api = Inr flagged" by blast
    from deepfakeEntry_printable [OF pc] obtain deep
      where d: "deepfakeEntry P api flagged = Inr deep" by blast
    from aiTextEntry_printable [OF pa] obtain ai where ai: "aiTextEntry P api = Inr ai" by blast
    have r: "buildAnomalies P ts t api = Inr (flagged @ deep @ ai)"
      by (rule buildAnomalies_real [OF h f d ai])
    from built [OF r] r
    show "buildAnomalies P ts t api = Inr (flagLines @ deepfake @ aiText)" by simp
  qed
  have c: "\<not> truthy (getProp (realRisk api) ''flags'') \<and> \<not> truthy (videoML api)
             \<and> \<not> truthy (textML api) \<longrightarrow> buildAnomalies P ts t api = Inr []"
    using h by (simp add: buildAnomalies_def flagEntries_none deepfakeEntry_none aiTextEntry_none)
  have d: "buildAnomalies P ts t api = buildAnomalies P ts' t' api"
    using h by (simp add: buildAnomalies_def split: sum.splits)
  have e: "\<forall>r. result P ts t api = Inr r \<longrightarrow> anomalies r = flagLines @ deepfake @ aiText"
    using built result_fields(6) by blast
  from a b c d e show ?thesis
    unfolding Let_def flags_def [symmetric] flagLines_def [symmetric] deepfake_def [symmetric]
      aiText_def [symmetric]
    by blast
qed

text \<open>
  A response with a score and nothing else has an empty anomaly list. A response with
  one risk flag, the video label \<open>fake\<close> and the text label \<open>ai-generated\<close> has the
  flag's line and the two synthesized entries (the runtime of the examples prints
  each figure as \<open>#\<close>). A response whose one flag names a deepfake already has that
  flag's line and no synthesized deepfake entry.
\<close>

theorem real_anomalies_exclude_mock_witness:
  "buildAnomalies exampleRuntime ''19/2/2026, 2:32:07 pm'' Video (JObj [(''score'', JNum 80)])
       = Inr []
   \<and> buildAnomalies exampleRuntime ''19/2/2026, 2:32:07 pm'' Video
        (JObj [(''score'', JNum 12),
               (''video_analysis'',
                JObj [(''label'', JStr ''fake''), (''confidence'', JNum (47 / 50))]),
               (''text_analysis'',
                JObj [(''label'', JStr ''ai-generated''), (''ai_probability'', JNum (22 / 25))]),
               (''risk_assessment'',
                JObj [(''flags'',
                       JArr [JObj [(''label'', JStr ''No GPS''),
                                   (''detail'', JStr ''GPS metadata missing'')]])])])
       = Inr [''No GPS: GPS metadata missing'',
              ''Deepfake Detected: ML model confidence #%'',
              ''AI-Generated Text: #% probability'']
   \<and> buildAnomalies exampleRuntime ''19/2/2026, 2:32:07 pm'' Video
        (JObj [(''video_analysis'',
                JObj [(''label'', JStr ''fake''), (''confidence'', JNum (47 / 50))]),
               (''risk_assessment'',
                JObj [(''flags'',
                       JArr [JObj [(''label'', JStr ''Deepfake''),
                                   (''detail'', JStr ''face swap in frames 142-189'')]])])])
       = Inr [''Deepfake: face swap in frames 142-189'']"
proof -
  let ?ts = "''19/2/2026, 2:32:07 pm''"
  let ?a1 = "JObj [(''score'', JNum 80)]"
  let ?a2 = "JObj [(''score'', JNum 12),
               (''video_analysis'',
                JObj [(''label'', JStr ''fake''), (''confidence'', JNum (47 / 50))]),
               (''text_analysis'',
                JObj [(''label'', JStr ''ai-generated''), (''ai_probability'', JNum (22 / 25))]),
               (''risk_assessment'',
                JObj [(''flags'',
                       JArr [JObj [(''label'', JStr ''No GPS''),
                                   (''detail'', JStr ''GPS metadata missing'')]])])]"
  let ?a3 = "JObj [(''video_analysis'',
                JObj [(''label'', JStr ''fake''), (''confidence'', JNum (47 / 50))]),
               (''risk_assessment'',
                JObj [(''flags'',
                       JArr [JObj [(''label'', JStr ''Deepfake''),
                                   (''detail'', JStr ''face swap in frames 142-189'')]])])]"
  have h1: "hasRealData ?a1" by (simp add: extract_defs)
  have h2: "hasRealData ?a2" by (simp add: extract_defs)
  have h3: "hasRealData ?a3" by (simp add: extract_defs)
  have f1: "getProp (realRisk ?a1) ''flags'' = JUndefined"
    by (simp add: realRisk_def orElse_def)
  have v1: "videoML ?a1 = JUndefined" by (simp add: videoML_def)
  have x1: "textML ?a1 = JUndefined" by (simp add: textML_def)
  from real_anomalies_exclude_mock [OF h1, of exampleRuntime ?ts Video ?ts Video, unfolded Let_def,
      THEN conjunct2, THEN conjunct2, THEN conjunct1]
  have r1: "buildAnomalies exampleRuntime ?ts Video ?a1 = Inr []"
    unfolding f1 v1 x1 by simp
  have f2: "getProp (realRisk ?a2) ''flags'' =
      JArr [JObj [(''label'', JStr ''No GPS''), (''detail'', JStr ''GPS metadata missing'')]]"
    by (simp add: realRisk_def orElse_def)
  have v2: "videoML ?a2 = JObj [(''label'', JStr ''fake''), (''confidence'', JNum (47 / 50))]"
    by (simp add: videoML_def)
  have x2: "textML ?a2 =
      JObj [(''label'', JStr ''ai-generated''), (''ai_probability'', JNum (22 / 25))]"
    by (simp add: textML_def)
  from real_anomalies_exclude_mock [OF h2, of exampleRuntime ?ts Video ?ts Video, unfolded Let_def,
      THEN conjunct2, THEN conjunct1]
  have r2: "buildAnomalies exampleRuntime ?ts Video ?a2 =
      Inr [''No GPS: GPS metadata missing'', ''Deepfake Detected: ML model confidence #%'',
           ''AI-Generated Text: #% probability'']"
    unfolding f2 v2 x2 by (simp add: exampleRuntime_def)
  have f3: "getProp (realRisk ?a3) ''flags'' =
      JArr [JObj [(''label'', JStr ''Deepfake''),
                  (''detail'', JStr ''face swap in frames 142-189'')]]"
    by (simp add: realRisk_def orElse_def)
  have v3: "videoML ?a3 = JObj [(''label'', JStr ''fake''), (''confidence'', JNum (47 / 50))]"
    by (simp add: videoML_def)
  have x3: "textML ?a3 = JUndefined" by (simp add: textML_def)
  from real_anomalies_exclude_mock [OF h3, of exampleRuntime ?ts Video ?ts Video, unfolded Let_def,
      THEN conjunct2, THEN conjunct1]
  have r3: "buildAnomalies exampleRuntime ?ts Video ?a3 =
      Inr [''Deepfake: face swap in frames 142-189'']"
    unfolding f3 v3 x3 by (simp add: exampleRuntime_def)
  from r1 r2 r3 show ?thesis by simp
qed


section \<open>The suspicion flags of the fingerprint\<close>




section \<open>The size limit of the endpoint\<close>

text \<open>
  C6, against the endpoint as the specification describes it: an upload of more than
  500MB is rejected with \<open>ContentTooLarge\<close> and leaves the backend as it was, so no
  detector was invoked and no content was persisted or is held; an upload of at most
  500MB is handled: the applicable detectors run and the content is persisted.
\<close>

theorem oversized_upload_rejected:
  "(n > maxUploadBytes \<longrightarrow>
      handleUpload n k a b = (Inl ContentTooLarge, b)
      \<and> invoked (snd (handleUpload n k a b)) = invoked b
      \<and> persisted (snd (handleUpload n k a b)) = persisted b
      \<and> stored (snd (handleUpload n k a b)) = stored b)
   \<and> (n \<le> maxUploadBytes \<longrightarrow>
      fst (handleUpload n k a b) = Inr (applicable k a)
      \<and> invoked (snd (handleUpload n k a b)) = invoked b @ applicable k a
      \<and> persisted (snd (handleUpload n k a b)) = persisted b + 1)"
  by (simp add: handleUpload_def put_def runDetectors_def delete_def Let_def)

text \<open>
  A video of 600MB is rejected by a fresh backend, which stays fresh; videos of 400MB
  and of exactly 500MB, with an audio track, are handled by the three detectors for
  video.
\<close>

theorem oversized_upload_rejected_witness:
  "handleUpload (600 * 1024 * 1024) Video True \<lparr>stored = [], persisted = 0, invoked = []\<rparr>
     = (Inl ContentTooLarge, \<lparr>stored = [], persisted = 0, invoked = []\<rparr>)
   \<and> fst (handleUpload (400 * 1024 * 1024) Video True \<lparr>stored = [], persisted = 0, invoked = []\<rparr>)
     = Inr [VideoDeepfake, AudioVoiceclone, MetadataForensics]
   \<and> fst (handleUpload (500 * 1024 * 1024) Video True \<lparr>stored = [], persisted = 0, invoked = []\<rparr>)
     = Inr [VideoDeepfake, AudioVoiceclone, MetadataForensics]"
  using oversized_upload_rejected
      [of "600 * 1024 * 1024" Video True "\<lparr>stored = [], persisted = 0, invoked = []\<rparr>"]
    oversized_upload_rejected
      [of "400 * 1024 * 1024" Video True "\<lparr>stored = [], persisted = 0, invoked = []\<rparr>"]
    oversized_upload_rejected
      [of "500 * 1024 * 1024" Video True "\<lparr>stored = [], persisted = 0, invoked = []\<rparr>"]
  by (simp add: maxUploadBytes_def applicable_def)


end
